theory Spec2Isabelle
  imports Main "HOL-Library.Word" "HOL-Library.Char_ord" "HOL-Library.List_Lexorder"
    "HOL-Library.AList"
begin

section \<open>Event authorisation of matrixeventauth (eventauth.go)\<close>

text \<open>
  A shallow embedding of \<^verbatim>\<open>src/matrixeventauth/eventauth.go\<close>. The Go functions become
  HOL functions of the same names. A Go \<^verbatim>\<open>error\<close> result is a \<open>failure option\<close>
  (\<open>None\<close> is \<^verbatim>\<open>nil\<close>), a result with an error is \<open>failure + 'a\<close>, and a run-time
  panic (an explicit \<^verbatim>\<open>panic\<close>, an index out of range, a nil dereference) is the
  failure \<open>Panic\<close>, which no caller in the file recovers from.
\<close>

subsection \<open>Data model\<close>

text \<open>
  Levels are \<^verbatim>\<open>int64\<close>: 64-bit words compared as signed numbers (\<open><s\<close>, \<open>\<le>s\<close>).
  A \<^verbatim>\<open>json.RawMessage\<close> is the JSON value it holds; an object is the list of its members in
  the order of the text.
\<close>

type_synonym int64 = "64 word"

datatype json =
    JNull
  | JBool bool
  | JNum int
  | JStr string
  | JArr "json list"
  | JObj "(string \<times> json) list"

record Event =
  RoomID :: string
  EventID :: string
  Sender :: string
  Type :: string
  StateKey :: "string option"
  Content :: json
  PrevEvents :: "json list list"
  Redacts :: string

text \<open>
  \<^verbatim>\<open>errorf(message, args...)\<close> builds \<^verbatim>\<open>&NotAllowed{Message: fmt.Sprintf(message, args...)}\<close>.
  The message is kept as the format string with its operands (\<open>Q\<close> for a \<^verbatim>\<open>%q\<close> string,
  \<open>D\<close> for a \<^verbatim>\<open>%d\<close> level), which determine the rendered text. \<open>OracleError\<close> is an
  error of the \<^verbatim>\<open>AuthEvents\<close> implementation, passed on unchanged.
\<close>

datatype fmtarg = Q string | D int64

datatype failure =
    NotAllowed string "fmtarg list"
  | OracleError string
  | Panic string

definition errorf :: "string \<Rightarrow> fmtarg list \<Rightarrow> failure" where
  "errorf message args = NotAllowed message args"

fun isNotAllowed :: "failure option \<Rightarrow> bool" where
  "isNotAllowed (Some (NotAllowed m a)) = True"
| "isNotAllowed _ = False"

fun isPanic :: "failure option \<Rightarrow> bool" where
  "isPanic (Some (Panic m)) = True"
| "isPanic _ = False"

text \<open>The \<^verbatim>\<open>AuthEvents\<close> interface: each method returns \<^verbatim>\<open>(*Event, error)\<close>.\<close>

record AuthEvents =
  Create :: "failure + Event option"
  JoinRules :: "failure + Event option"
  PowerLevels :: "failure + Event option"
  Member :: "string \<Rightarrow> failure + Event option"
  ThirdPartyInvite :: "string \<Rightarrow> failure + Event option"

record StateNeeded =
  Create :: bool
  JoinRules :: bool
  PowerLevels :: bool
  Member :: "string list"
  ThirdPartyInvite :: "string list"

subsection \<open>JSON decoding\<close>

text \<open>
  Reading a member of an object for the content views of the specification: a missing
  member reads as \<^verbatim>\<open>null\<close>, keys are compared exactly, and of two members with one key the
  later one counts. (The decoding the source itself does, with \<^verbatim>\<open>json.Unmarshal\<close> into a
  string and into a struct, is \<open>unmarshalString\<close> and \<open>decodeStruct\<close> below.)
\<close>

definition jget :: "(string \<times> json) list \<Rightarrow> string \<Rightarrow> json" where
  "jget kvs k = (case map_of (rev kvs) k of None \<Rightarrow> JNull | Some v \<Rightarrow> v)"

fun unmarshalString :: "json \<Rightarrow> string option" where
  "unmarshalString JNull = Some []"
| "unmarshalString (JStr s) = Some s"
| "unmarshalString _ = None"

fun unmarshalField :: "json \<Rightarrow> string \<Rightarrow> json option" where
  "unmarshalField JNull k = Some JNull"
| "unmarshalField (JObj kvs) k = Some (jget kvs k)"
| "unmarshalField _ k = None"

text \<open>
  \<^verbatim>\<open>json.Unmarshal\<close> into a struct, as \<^verbatim>\<open>encoding/json\<close> does it. The members of the object
  are decoded in the order of the text, each into the field its key names, so a key that
  comes twice is decoded twice into the same field. A key names a field when the two are
  equal after folding: ASCII letters fold to upper case, and the two letters outside ASCII
  that fold to an ASCII letter, U+017F to \<^verbatim>\<open>S\<close> and U+212A to \<^verbatim>\<open>K\<close>, are folded (strings
  are UTF-8 bytes). \<^verbatim>\<open>null\<close> leaves a struct or a string as it is; a value of another JSON
  type than the field's is an error, which is saved while decoding goes on and returned at
  the end. The state of the decoder is the string decoded so far and whether an error was
  saved.
\<close>

definition upperASCII :: "char \<Rightarrow> char" where
  "upperASCII c =
     (if CHR ''a'' \<le> c \<and> c \<le> CHR ''z'' then char_of (of_char c - (32 :: nat)) else c)"

fun foldName :: "string \<Rightarrow> string" where
  "foldName [] = []"
| "foldName (c # cs) =
     (if c = CHR 0xC5 \<and> take 1 cs = [CHR 0xBF] then CHR ''S'' # foldName (drop 1 cs)
      else if c = CHR 0xE2 \<and> take 2 cs = [CHR 0x84, CHR 0xAA] then
        CHR ''K'' # foldName (drop 2 cs)
      else upperASCII c # foldName cs)"

fun storeString :: "json \<Rightarrow> string \<times> bool \<Rightarrow> string \<times> bool" where
  "storeString JNull s = s"
| "storeString (JStr v) s = (v, snd s)"
| "storeString _ s = (fst s, True)"

fun decodeStruct ::
  "string \<Rightarrow> (json \<Rightarrow> string \<times> bool \<Rightarrow> string \<times> bool) \<Rightarrow> json \<Rightarrow>
   string \<times> bool \<Rightarrow> string \<times> bool" where
  "decodeStruct name field JNull s = s"
| "decodeStruct name field (JObj kvs) s =
     foldl (\<lambda>s' (k, v). if foldName k = foldName name then field v s' else s') s kvs"
| "decodeStruct name field _ s = (fst s, True)"

subsection \<open>\<^verbatim>\<open>unique\<close> and \<^verbatim>\<open>StateNeededForAuth\<close>\<close>

text \<open>
  \<^verbatim>\<open>sort.StringSlice\<close>: \<^verbatim>\<open>Len\<close>, \<^verbatim>\<open>Less\<close> and \<^verbatim>\<open>Swap\<close> on a slice of strings, indexed by
  Go \<^verbatim>\<open>int\<close>s. Reading or writing outside \<open>0 \<le> i < Len\<close> panics.
\<close>

definition indexOutOfRange :: failure where
  "indexOutOfRange = Panic ''runtime error: index out of range''"

definition Len :: "string list \<Rightarrow> int" where
  "Len x = int (length x)"

definition inRange :: "string list \<Rightarrow> int \<Rightarrow> bool" where
  "inRange x i = (0 \<le> i \<and> i < Len x)"

definition Less :: "string list \<Rightarrow> int \<Rightarrow> int \<Rightarrow> failure + bool" where
  "Less x i j =
     (if inRange x i \<and> inRange x j then Inr (x ! nat i < x ! nat j) else Inl indexOutOfRange)"

definition Swap :: "string list \<Rightarrow> int \<Rightarrow> int \<Rightarrow> failure + string list" where
  "Swap x i j =
     (if inRange x i \<and> inRange x j
      then Inr (x[nat i := x ! nat j, nat j := x ! nat i])
      else Inl indexOutOfRange)"

text \<open>
  The loop of \<^verbatim>\<open>unique\<close>, \<^verbatim>\<open>for i := 1; i < length; i++\<close>, with \<^verbatim>\<open>length\<close> (here \<open>len\<close>) read once before
  the loop; the state is the slice and \<open>j\<close>.
\<close>

function unique_loop :: "int \<Rightarrow> string list \<Rightarrow> int \<Rightarrow> int \<Rightarrow> failure + (string list \<times> int)" where
  "unique_loop len data i j =
     (if i < len then
        (case Less data (i - 1) i of
           Inl e \<Rightarrow> Inl e
         | Inr True \<Rightarrow>
             (case Swap data (i - 1) j of
                Inl e \<Rightarrow> Inl e
              | Inr data' \<Rightarrow> unique_loop len data' (i + 1) (j + 1))
         | Inr False \<Rightarrow> unique_loop len data (i + 1) j)
      else Inr (data, j))"
  by pat_completeness auto
termination
  by (relation "measure (\<lambda>(len, data, i, j). nat (len - i))") auto

definition unique :: "string list \<Rightarrow> failure + (string list \<times> int)" where
  "unique data =
     (let len = Len data in
      case unique_loop len data 1 0 of
        Inl e \<Rightarrow> Inl e
      | Inr (data', j) \<Rightarrow>
          (case Swap data' (len - 1) j of
             Inl e \<Rightarrow> Inl e
           | Inr data'' \<Rightarrow> Inr (data'', j + 1)))"

text \<open>
  \<^verbatim>\<open>needsThirdpartyInvite\<close> decodes \<^verbatim>\<open>content.third_party_invite.signed.token\<close>; a decoding
  error leaves the list as it is.
\<close>

definition unmarshalContent :: "json \<Rightarrow> string \<times> bool" where
  "unmarshalContent content =
     decodeStruct ''third_party_invite''
       (decodeStruct ''signed'' (decodeStruct ''token'' storeString)) content ([], False)"

definition needsThirdpartyInvite :: "string list \<Rightarrow> Event \<Rightarrow> string list" where
  "needsThirdpartyInvite thirdpartyinvites event =
     (case unmarshalContent (Content event) of
        (token, err) \<Rightarrow>
          if err then thirdpartyinvites
          else if token \<noteq> [] then thirdpartyinvites @ [token]
          else thirdpartyinvites)"

text \<open>
  The loop over the batch. Its state is \<open>(result, members, thirdpartyinvites)\<close>. The
  member case appends \<^verbatim>\<open>event.StateKey\<close>, a \<^verbatim>\<open>*string\<close>, to a slice of strings: the value
  appended is the string it points to, and there is none when the pointer is nil.
\<close>

definition nilDereference :: failure where
  "nilDereference = Panic ''runtime error: invalid memory address or nil pointer dereference''"

definition stateNeededStep ::
  "StateNeeded \<times> string list \<times> string list \<Rightarrow> Event \<Rightarrow>
   failure + (StateNeeded \<times> string list \<times> string list)" where
  "stateNeededStep s event =
     (case s of (result, members, thirdpartyinvites) \<Rightarrow>
        if Type event = ''m.room.create'' then Inr (result, members, thirdpartyinvites)
        else if Type event = ''m.room.aliases'' then
          Inr (result\<lparr>Create := True\<rparr>, members, thirdpartyinvites)
        else if Type event = ''m.room.member'' then
          (case StateKey event of
             None \<Rightarrow> Inl nilDereference
           | Some stateKey \<Rightarrow>
               Inr (result\<lparr>Create := True, PowerLevels := True, JoinRules := True\<rparr>,
                    members @ [Sender event, stateKey],
                    needsThirdpartyInvite thirdpartyinvites event))
        else
          Inr (result\<lparr>Create := True, PowerLevels := True\<rparr>,
               members @ [Sender event], thirdpartyinvites))"

fun stateNeededLoop ::
  "StateNeeded \<times> string list \<times> string list \<Rightarrow> Event list \<Rightarrow>
   failure + (StateNeeded \<times> string list \<times> string list)" where
  "stateNeededLoop s [] = Inr s"
| "stateNeededLoop s (event # events) =
     (case stateNeededStep s event of
        Inl e \<Rightarrow> Inl e
      | Inr s' \<Rightarrow> stateNeededLoop s' events)"

definition StateNeededForAuth :: "Event list \<Rightarrow> failure + StateNeeded" where
  "StateNeededForAuth events =
     (case stateNeededLoop
             (\<lparr>Create = False, JoinRules = False, PowerLevels = False,
               Member = [], ThirdPartyInvite = []\<rparr>, [], []) events of
        Inl e \<Rightarrow> Inl e
      | Inr (result, members, thirdpartyinvites) \<Rightarrow>
          (case unique (sort members) of
             Inl e \<Rightarrow> Inl e
           | Inr (members', n) \<Rightarrow>
               (case unique (sort thirdpartyinvites) of
                  Inl e \<Rightarrow> Inl e
                | Inr (thirdpartyinvites', k) \<Rightarrow>
                    Inr (result\<lparr>Member := take (nat n) members',
                                ThirdPartyInvite := take (nat k) thirdpartyinvites'\<rparr>))))"

subsection \<open>Identifiers and content views\<close>

text \<open>
  The file uses \<^verbatim>\<open>domainFromID\<close>, the content types \<^verbatim>\<open>createContent\<close>, \<^verbatim>\<open>memberContent\<close>,
  \<^verbatim>\<open>joinRuleContent\<close> and \<^verbatim>\<open>powerLevelContent\<close> and their methods without declaring them.
  They are written here from sections 3 and 4 of the specification, decoding JSON as above.
\<close>

text \<open>Modelled from the spec: \<^verbatim>\<open>domainFromID\<close> is not in the file. "The substring after the
  first \<^verbatim>\<open>:\<close> is the server-domain"; an identifier without \<^verbatim>\<open>:\<close> has none, which is the
  error the callers test for.\<close>

definition domainFromID :: "string \<Rightarrow> failure + string" where
  "domainFromID ident =
     (if CHR '':'' \<in> set ident
      then Inr (tl (dropWhile (\<lambda>c. c \<noteq> CHR '':'') ident))
      else Inl (errorf ''invalid ID: %q'' [Q ident]))"

text \<open>Modelled from the spec: the type \<^verbatim>\<open>createContent\<close> is not in the file. "Fields:
  creator (user ID), a membership-federation policy (m.federate, default true), and a
  derived event_id recovered from the oracle's create entry."\<close>

record createContent =
  Creator :: string
  federate :: bool
  eventID :: string

text \<open>Modelled from the spec: \<^verbatim>\<open>createContent.load\<close> (called \<^verbatim>\<open>createEvent\<close> in the alias
  rule) is not in the file. An oracle error is passed on; the create entry is never
  absent for an event that needs it, so its absence is a denial; content that does not
  decode is a denial ("unparsable").\<close>

definition createContent_load :: "AuthEvents \<Rightarrow> failure + createContent" where
  "createContent_load authEvents =
     (case AuthEvents.Create authEvents of
        Inl err \<Rightarrow> Inl err
      | Inr None \<Rightarrow> Inl (errorf ''missing create event'' [])
      | Inr (Some createEvent) \<Rightarrow>
          (case (unmarshalField (Content createEvent) ''creator'',
                 unmarshalField (Content createEvent) ''m.federate'') of
             (Some c, Some f) \<Rightarrow>
               (case (unmarshalString c, f) of
                  (Some creator, JNull) \<Rightarrow>
                    Inr \<lparr>Creator = creator, federate = True, eventID = EventID createEvent\<rparr>
                | (Some creator, JBool b) \<Rightarrow>
                    Inr \<lparr>Creator = creator, federate = b, eventID = EventID createEvent\<rparr>
                | _ \<Rightarrow> Inl (errorf ''unparsable create event content'' []))
           | _ \<Rightarrow> Inl (errorf ''unparsable create event content'' [])))"

text \<open>Modelled from the spec: \<^verbatim>\<open>createContent.domainAllowed\<close> is not in the file. "If
  m.federate=false, only the room's home domain may act, i.e. the sender domain must equal
  the creator's domain."\<close>

definition domainAllowed :: "createContent \<Rightarrow> string \<Rightarrow> failure option" where
  "domainAllowed create domain =
     (if federate create then None
      else (case domainFromID (Creator create) of
              Inl err \<Rightarrow> Some err
            | Inr creatorDomain \<Rightarrow>
                if domain = creatorDomain then None
                else Some (errorf ''room is unfederatable: %q domain not in room'' [Q domain])))"

text \<open>Modelled from the spec: \<^verbatim>\<open>createContent.idAllowed\<close> is not in the file. The same
  federation policy, on the domain of an identifier.\<close>

definition idAllowed :: "createContent \<Rightarrow> string \<Rightarrow> failure option" where
  "idAllowed create ident =
     (if federate create then None
      else (case domainFromID ident of
              Inl err \<Rightarrow> Some err
            | Inr domain \<Rightarrow> domainAllowed create domain))"

text \<open>Modelled from the spec: the type \<^verbatim>\<open>memberContent\<close> is not in the file. "A single
  field membership ... Optionally carries a third_party_invite sub-object."\<close>

record memberContent =
  Membership :: string
  thirdPartyInvite :: "json option"

text \<open>Modelled from the spec: \<^verbatim>\<open>memberContent.parse\<close> is not in the file. The membership
  is "one of {join, leave, invite, ban, knock}. Other tokens are invalid and cause parse
  failure"; parse failures are denials.\<close>

definition memberContent_parse :: "Event \<Rightarrow> failure + memberContent" where
  "memberContent_parse event =
     (case Content event of
        JObj kvs \<Rightarrow>
          (case (jget kvs ''membership'', jget kvs ''third_party_invite'') of
             (JStr membership, tpi) \<Rightarrow>
               if membership \<in> set [''join'', ''leave'', ''invite'', ''ban'', ''knock''] then
                 (case tpi of
                    JNull \<Rightarrow> Inr \<lparr>Membership = membership, thirdPartyInvite = None\<rparr>
                  | JObj invite \<Rightarrow>
                      Inr \<lparr>Membership = membership, thirdPartyInvite = Some (JObj invite)\<rparr>
                  | _ \<Rightarrow> Inl (errorf ''unparsable member event content'' []))
               else Inl (errorf ''unparsable member event content'' [])
           | _ \<Rightarrow> Inl (errorf ''unparsable member event content'' []))
      | _ \<Rightarrow> Inl (errorf ''unparsable member event content'' []))"

text \<open>Modelled from the spec: \<^verbatim>\<open>memberContent.load\<close> is not in the file. "Absent prior
  member entry is treated as leave"; an oracle error is passed on.\<close>

definition memberContent_load :: "AuthEvents \<Rightarrow> string \<Rightarrow> failure + memberContent" where
  "memberContent_load authEvents userID =
     (case AuthEvents.Member authEvents userID of
        Inl err \<Rightarrow> Inl err
      | Inr None \<Rightarrow> Inr \<lparr>Membership = ''leave'', thirdPartyInvite = None\<rparr>
      | Inr (Some memberEvent) \<Rightarrow> memberContent_parse memberEvent)"

text \<open>Modelled from the spec: the type \<^verbatim>\<open>joinRuleContent\<close> is not in the file. "A single
  field join_rule".\<close>

record joinRuleContent =
  JoinRule :: string

text \<open>Modelled from the spec: \<^verbatim>\<open>joinRuleContent.load\<close> is not in the file. The rule is
  "one of {public, invite, knock, private}. Absence of a join-rules event defaults to
  invite."\<close>

definition joinRuleContent_load :: "AuthEvents \<Rightarrow> failure + joinRuleContent" where
  "joinRuleContent_load authEvents =
     (case AuthEvents.JoinRules authEvents of
        Inl err \<Rightarrow> Inl err
      | Inr None \<Rightarrow> Inr \<lparr>JoinRule = ''invite''\<rparr>
      | Inr (Some joinRulesEvent) \<Rightarrow>
          (case unmarshalField (Content joinRulesEvent) ''join_rule'' of
             Some (JStr rule) \<Rightarrow>
               if rule \<in> set [''public'', ''invite'', ''knock'', ''private'']
               then Inr \<lparr>JoinRule = rule\<rparr>
               else Inl (errorf ''unparsable join_rules event content'' [])
           | _ \<Rightarrow> Inl (errorf ''unparsable join_rules event content'' [])))"

text \<open>Modelled from the spec: the type \<^verbatim>\<open>powerLevelContent\<close> is not in the file; its field
  names are those the file uses. The maps \<^verbatim>\<open>userLevels\<close> and \<^verbatim>\<open>eventLevels\<close> are lists of
  entries with distinct keys; a \<^verbatim>\<open>range\<close> over one visits its keys in the order of the list,
  which stands for the order the Go run time happens to choose.\<close>

record powerLevelContent =
  banLevel :: int64
  inviteLevel :: int64
  kickLevel :: int64
  redactLevel :: int64
  userLevels :: "(string \<times> int64) list"
  userDefaultLevel :: int64
  eventLevels :: "(string \<times> int64) list"
  eventDefaultLevel :: int64
  stateDefaultLevel :: int64

text \<open>Modelled from the spec: the defaults of the power levels. "ban, kick, redact,
  invite: 50; state_default: 50; events_default, users_default: 0".\<close>

definition defaultPowerLevels :: powerLevelContent where
  "defaultPowerLevels =
     \<lparr>banLevel = 50, inviteLevel = 50, kickLevel = 50, redactLevel = 50,
      userLevels = [], userDefaultLevel = 0,
      eventLevels = [], eventDefaultLevel = 0, stateDefaultLevel = 50\<rparr>"

text \<open>Decoding an \<^verbatim>\<open>int64\<close>: an integer numeral in range; \<^verbatim>\<open>null\<close> or a missing member leaves
  the value it had.\<close>

fun unmarshalInt64 :: "int64 \<Rightarrow> json \<Rightarrow> int64 option" where
  "unmarshalInt64 d JNull = Some d"
| "unmarshalInt64 d (JNum n) =
     (if - (2 ^ 63) \<le> n \<and> n < 2 ^ 63 then Some (word_of_int n) else None)"
| "unmarshalInt64 d _ = None"

fun unmarshalLevels ::
  "(string \<times> json) list \<Rightarrow> (string \<times> int64) list \<Rightarrow> (string \<times> int64) list option" where
  "unmarshalLevels [] m = Some m"
| "unmarshalLevels ((k, v) # kvs) m =
     (case unmarshalInt64 0 v of
        None \<Rightarrow> None
      | Some l \<Rightarrow> unmarshalLevels kvs (AList.update k l m))"

fun unmarshalLevelMap :: "json \<Rightarrow> (string \<times> int64) list option" where
  "unmarshalLevelMap JNull = Some []"
| "unmarshalLevelMap (JObj kvs) = unmarshalLevels kvs []"
| "unmarshalLevelMap _ = None"

text \<open>Modelled from the spec: \<^verbatim>\<open>powerLevelContent.parse\<close> is not in the file. Each level
  that the content does not give keeps its default; content that does not decode is a
  denial.\<close>

definition powerLevelContent_parse :: "Event \<Rightarrow> failure + powerLevelContent" where
  "powerLevelContent_parse event =
     (case Content event of
        JObj kvs \<Rightarrow>
          (case (unmarshalInt64 50 (jget kvs ''ban''), unmarshalInt64 50 (jget kvs ''invite''),
                 unmarshalInt64 50 (jget kvs ''kick''), unmarshalInt64 50 (jget kvs ''redact''),
                 unmarshalLevelMap (jget kvs ''users''),
                 unmarshalInt64 0 (jget kvs ''users_default''),
                 unmarshalLevelMap (jget kvs ''events''),
                 unmarshalInt64 0 (jget kvs ''events_default''),
                 unmarshalInt64 50 (jget kvs ''state_default'')) of
             (Some ban, Some invite, Some kick, Some redact, Some users, Some usersDefault,
              Some events, Some eventsDefault, Some stateDefault) \<Rightarrow>
               Inr \<lparr>banLevel = ban, inviteLevel = invite, kickLevel = kick,
                    redactLevel = redact, userLevels = users, userDefaultLevel = usersDefault,
                    eventLevels = events, eventDefaultLevel = eventsDefault,
                    stateDefaultLevel = stateDefault\<rparr>
           | _ \<Rightarrow> Inl (errorf ''unparsable power_levels event content'' []))
      | _ \<Rightarrow> Inl (errorf ''unparsable power_levels event content'' []))"

text \<open>Modelled from the spec: \<^verbatim>\<open>powerLevelContent.load\<close> is not in the file. "Absent
  power-levels event means all defaults apply with the creator-as-100 exception."\<close>

definition powerLevelContent_load :: "AuthEvents \<Rightarrow> string \<Rightarrow> failure + powerLevelContent" where
  "powerLevelContent_load authEvents creatorUserID =
     (case AuthEvents.PowerLevels authEvents of
        Inl err \<Rightarrow> Inl err
      | Inr None \<Rightarrow> Inr (defaultPowerLevels\<lparr>userLevels := [(creatorUserID, 100)]\<rparr>)
      | Inr (Some powerLevelsEvent) \<Rightarrow> powerLevelContent_parse powerLevelsEvent)"

text \<open>Modelled from the spec: \<^verbatim>\<open>powerLevelContent.userLevel\<close> is not in the file.
  "users[userID]: absent, users_default".\<close>

definition userLevel :: "powerLevelContent \<Rightarrow> string \<Rightarrow> int64" where
  "userLevel p userID =
     (case map_of (userLevels p) userID of
        Some level \<Rightarrow> level
      | None \<Rightarrow> userDefaultLevel p)"

text \<open>Modelled from the spec: \<^verbatim>\<open>powerLevelContent.eventLevel\<close> is not in the file. "If
  events[type] is present, use it; else if the event carries a state key, use
  state_default; else use events_default."\<close>

definition eventLevel :: "powerLevelContent \<Rightarrow> string \<Rightarrow> string option \<Rightarrow> int64" where
  "eventLevel p eventType stateKey =
     (case map_of (eventLevels p) eventType of
        Some level \<Rightarrow> level
      | None \<Rightarrow> if stateKey \<noteq> None then stateDefaultLevel p else eventDefaultLevel p)"

subsection \<open>The create and alias rules\<close>

definition createEventAllowed :: "Event \<Rightarrow> AuthEvents \<Rightarrow> failure option" where
  "createEventAllowed event authEvents =
     (case domainFromID (RoomID event) of
        Inl err \<Rightarrow> Some err
      | Inr roomIDDomain \<Rightarrow>
          (case domainFromID (Sender event) of
             Inl err \<Rightarrow> Some err
           | Inr senderDomain \<Rightarrow>
               if senderDomain \<noteq> roomIDDomain then
                 Some (errorf ''create event room ID domain does not match sender: %q != %q''
                         [Q roomIDDomain, Q senderDomain])
               else if length (PrevEvents event) > 0 then
                 Some (errorf ''create event must be the first event in the room'' [])
               else None))"

definition aliasEventAllowed :: "Event \<Rightarrow> AuthEvents \<Rightarrow> failure option" where
  "aliasEventAllowed event authEvents =
     (case domainFromID (Sender event) of
        Inl err \<Rightarrow> Some err
      | Inr senderDomain \<Rightarrow>
          (case createContent_load authEvents of
             Inl err \<Rightarrow> Some err
           | Inr create \<Rightarrow>
               (case domainAllowed create senderDomain of
                  Some err \<Rightarrow> Some err
                | None \<Rightarrow>
                    (case StateKey event of
                       None \<Rightarrow> Some (errorf ''alias must be a state event'' [])
                     | Some stateKey \<Rightarrow>
                         if senderDomain \<noteq> stateKey then
                           Some (errorf ''alias state_key does not match sender domain, %q != %q''
                                   [Q senderDomain, Q stateKey])
                         else None))))"

subsection \<open>The member rule and the membership transition machine\<close>

text \<open>
  \<^verbatim>\<open>membershipAllower\<close> declares the fields \<^verbatim>\<open>senderMember\<close>, \<^verbatim>\<open>oldMember\<close> and
  \<^verbatim>\<open>newMember\<close>; \<^verbatim>\<open>setup\<close> writes them as \<^verbatim>\<open>senderMembership\<close>, \<^verbatim>\<open>oldMembership\<close> and
  \<^verbatim>\<open>newMembership\<close>, and the transition functions write \<^verbatim>\<open>m.SenderID\<close> and \<^verbatim>\<open>m.TargetID\<close>
  for \<^verbatim>\<open>senderID\<close> and \<^verbatim>\<open>targetID\<close>. Each pair of spellings is one field. In
  \<^verbatim>\<open>membershipAllowedOther\<close> the test \<^verbatim>\<open>m.oldMembership == "ban"\<close> is on the membership of
  \<^verbatim>\<open>oldMember\<close>, and \<^verbatim>\<open>powerLevels.banLevel\<close> and \<^verbatim>\<open>powerLevels.kickLevel\<close> are levels of
  \<^verbatim>\<open>m.powerLevels\<close>. \<^verbatim>\<open>setup\<close> dereferences \<^verbatim>\<open>event.StateKey\<close>.
\<close>

record membershipAllower =
  targetID :: string
  senderID :: string
  senderMember :: memberContent
  oldMember :: memberContent
  newMember :: memberContent
  joinRule :: joinRuleContent
  create :: createContent
  powerLevels :: powerLevelContent

definition membershipAllower_setup :: "Event \<Rightarrow> AuthEvents \<Rightarrow> failure + membershipAllower" where
  "membershipAllower_setup event authEvents =
     (case StateKey event of
        None \<Rightarrow> Inl nilDereference
      | Some target \<Rightarrow>
     (case memberContent_load authEvents (Sender event) of
        Inl err \<Rightarrow> Inl err
      | Inr senderMembership \<Rightarrow>
     (case memberContent_load authEvents target of
        Inl err \<Rightarrow> Inl err
      | Inr oldMembership \<Rightarrow>
     (case memberContent_parse event of
        Inl err \<Rightarrow> Inl err
      | Inr newMembership \<Rightarrow>
     (case createContent_load authEvents of
        Inl err \<Rightarrow> Inl err
      | Inr createContent \<Rightarrow>
     (case powerLevelContent_load authEvents (Creator createContent) of
        Inl err \<Rightarrow> Inl err
      | Inr powerLevelContent \<Rightarrow>
     (case joinRuleContent_load authEvents of
        Inl err \<Rightarrow> Inl err
      | Inr joinRuleContent \<Rightarrow>
          Inr \<lparr>targetID = target, senderID = Sender event,
               senderMember = senderMembership, oldMember = oldMembership,
               newMember = newMembership, joinRule = joinRuleContent,
               create = createContent, powerLevels = powerLevelContent\<rparr>)))))))"

definition membershipFailed :: "membershipAllower \<Rightarrow> failure option" where
  "membershipFailed m =
     (if senderID m = targetID m then
        Some (errorf ''%q is not allowed to change their membership from %q to %q''
                [Q (targetID m), Q (Membership (oldMember m)), Q (Membership (newMember m))])
      else if Membership (senderMember m) \<noteq> ''join'' then
        Some (errorf ''sender %q is not in the room'' [Q (senderID m)])
      else
        Some (errorf ''%q is not allowed to change the membership of %q from %q to %q''
                [Q (senderID m), Q (targetID m), Q (Membership (oldMember m)),
                 Q (Membership (newMember m))]))"

text \<open>
  In the two transition functions each \<^verbatim>\<open>return nil\<close> stands under nested \<^verbatim>\<open>if\<close>s
  without \<^verbatim>\<open>else\<close>; control that leaves them reaches \<^verbatim>\<open>membershipFailed\<close>. Each branch
  below is one \<^verbatim>\<open>return nil\<close>, guarded by the conjunction of the tests around it, in the
  order of the source.
\<close>

definition membershipAllowedSelf :: "membershipAllower \<Rightarrow> failure option" where
  "membershipAllowedSelf m =
     (if Membership (newMember m) = ''join'' \<and>
         Membership (oldMember m) = ''leave'' \<and> JoinRule (joinRule m) = ''public'' then None
      else if Membership (newMember m) = ''join'' \<and>
         Membership (oldMember m) = ''invite'' \<and> JoinRule (joinRule m) = ''public'' then None
      else if Membership (newMember m) = ''join'' \<and>
         Membership (oldMember m) = ''invite'' \<and> JoinRule (joinRule m) = ''invite'' then None
      else if Membership (newMember m) = ''join'' \<and>
         Membership (oldMember m) = ''join'' then None
      else if Membership (newMember m) = ''leave'' \<and>
         Membership (oldMember m) = ''join'' then None
      else if Membership (newMember m) = ''leave'' \<and>
         Membership (oldMember m) = ''invite'' then None
      else membershipFailed m)"

definition membershipAllowedOther :: "membershipAllower \<Rightarrow> failure option" where
  "membershipAllowedOther m =
     (let senderLevel = userLevel (powerLevels m) (senderID m);
          targetLevel = userLevel (powerLevels m) (targetID m)
      in
        if Membership (senderMember m) = ''join'' \<and>
           Membership (newMember m) = ''ban'' \<and>
           banLevel (powerLevels m) \<le>s senderLevel \<and> targetLevel <s senderLevel then None
        else if Membership (senderMember m) = ''join'' \<and>
           Membership (newMember m) = ''leave'' \<and>
           Membership (oldMember m) = ''ban'' \<and>
           banLevel (powerLevels m) \<le>s senderLevel then None
        else if Membership (senderMember m) = ''join'' \<and>
           Membership (newMember m) = ''leave'' \<and>
           Membership (oldMember m) \<noteq> ''ban'' \<and>
           kickLevel (powerLevels m) \<le>s senderLevel \<and> targetLevel <s senderLevel then None
        else if Membership (senderMember m) = ''join'' \<and>
           Membership (newMember m) = ''invite'' \<and>
           Membership (oldMember m) = ''leave'' \<and>
           inviteLevel (powerLevels m) \<le>s senderLevel then None
        else if Membership (senderMember m) = ''join'' \<and>
           Membership (newMember m) = ''invite'' \<and>
           Membership (oldMember m) = ''invite'' \<and>
           inviteLevel (powerLevels m) \<le>s senderLevel then None
        else membershipFailed m)"

definition membershipAllowed :: "membershipAllower \<Rightarrow> failure option" where
  "membershipAllowed m =
     (if targetID m = senderID m then membershipAllowedSelf m
      else membershipAllowedOther m)"

text \<open>
  \<^verbatim>\<open>memberEventAllowed\<close> after the special case of the first join: "the usual
  authentication process". The source tests \<^verbatim>\<open>newMembership == "invite" && thirdPartyInvite != nil\<close>,
  names it declares nowhere: they are the membership and the third-party invite of the
  parsed content \<^verbatim>\<open>newMember\<close>; and it decodes \<^verbatim>\<open>PrevEvents[0][0]\<close>, which is
  \<^verbatim>\<open>event.PrevEvents[0][0]\<close>. (The locals \<^verbatim>\<open>create\<close> and \<^verbatim>\<open>newMember\<close> carry a prime
  here, the plain names being the fields of \<^verbatim>\<open>membershipAllower\<close>.)
\<close>

definition memberEventAllowedUsual ::
  "Event \<Rightarrow> AuthEvents \<Rightarrow> createContent \<Rightarrow> memberContent \<Rightarrow> string \<Rightarrow> failure option" where
  "memberEventAllowedUsual event authEvents create' newMember' targetUserID =
     (case idAllowed create' targetUserID of
        Some err \<Rightarrow> Some err
      | None \<Rightarrow>
          if Membership newMember' = ''invite'' \<and> thirdPartyInvite newMember' \<noteq> None then
            Some (Panic ''ThirdPartyInvite not implemented'')
          else
            (case membershipAllower_setup event authEvents of
               Inl err \<Rightarrow> Some err
             | Inr m \<Rightarrow> membershipAllowed m))"

definition memberEventAllowed :: "Event \<Rightarrow> AuthEvents \<Rightarrow> failure option" where
  "memberEventAllowed event authEvents =
     (case createContent_load authEvents of
        Inl err \<Rightarrow> Some err
      | Inr create' \<Rightarrow>
     (case idAllowed create' (Sender event) of
        Some err \<Rightarrow> Some err
      | None \<Rightarrow>
     (case memberContent_parse event of
        Inl err \<Rightarrow> Some err
      | Inr newMember' \<Rightarrow>
     (case StateKey event of
        None \<Rightarrow> Some (errorf ''member must be a state event'' [])
      | Some targetUserID \<Rightarrow>
          if length (PrevEvents event) = 1 \<and>
             Membership newMember' = ''join'' \<and>
             Creator create' = targetUserID \<and>
             Sender event = targetUserID
          then
            (if length (PrevEvents event ! 0) \<noteq> 2 then
               Some (errorf ''unparsable prev event'' [])
             else
               (case unmarshalString (PrevEvents event ! 0 ! 0) of
                  None \<Rightarrow> Some (errorf ''unparsable prev event'' [])
                | Some prevEventID \<Rightarrow>
                    if prevEventID = eventID create' then None
                    else memberEventAllowedUsual event authEvents create' newMember' targetUserID))
          else memberEventAllowedUsual event authEvents create' newMember' targetUserID))))"

subsection \<open>The default, redact and power-levels rules\<close>

text \<open>
  \<^verbatim>\<open>eventAllower\<close> declares the field \<^verbatim>\<open>powerlevels\<close> and its methods write
  \<^verbatim>\<open>e.powerLevels\<close>; the callers name its check \<^verbatim>\<open>commonChecks()\<close> where the file defines
  \<^verbatim>\<open>defaultAllowed(event, authEvents)\<close>. Each pair of spellings is one name.
\<close>

record eventAllower =
  create :: createContent
  member :: memberContent
  powerlevels :: powerLevelContent

definition eventAllower_setup :: "AuthEvents \<Rightarrow> string \<Rightarrow> failure + eventAllower" where
  "eventAllower_setup authEvents senderID' =
     (case createContent_load authEvents of
        Inl err \<Rightarrow> Inl err
      | Inr createContent \<Rightarrow>
     (case memberContent_load authEvents senderID' of
        Inl err \<Rightarrow> Inl err
      | Inr memberContent \<Rightarrow>
     (case powerLevelContent_load authEvents (Creator createContent) of
        Inl err \<Rightarrow> Inl err
      | Inr powerLevelContent \<Rightarrow>
          Inr \<lparr>create = createContent, member = memberContent,
               powerlevels = powerLevelContent\<rparr>)))"

definition defaultAllowed :: "eventAllower \<Rightarrow> Event \<Rightarrow> AuthEvents \<Rightarrow> failure option" where
  "defaultAllowed e event authEvents =
     (case idAllowed (eventAllower.create e) (Sender event) of
        Some err \<Rightarrow> Some err
      | None \<Rightarrow>
          if Membership (member e) \<noteq> ''join'' then
            Some (errorf ''sender %q not in room'' [Q (Sender event)])
          else
            (let senderLevel = userLevel (powerlevels e) (Sender event);
                 eventLevel' = eventLevel (powerlevels e) (Type event) (StateKey event)
             in
               if senderLevel <s eventLevel' then
                 Some (errorf ''sender %q is not allowed to send event. %d < %d''
                         [Q (Sender event), D senderLevel, D eventLevel'])
               else
                 (case StateKey event of
                    Some (c # cs) \<Rightarrow>
                      if c = CHR ''@'' \<and> c # cs \<noteq> Sender event then
                        Some (errorf ''sender %q is not allowed to modify the state belonging to %q''
                                [Q (Sender event), Q (c # cs)])
                      else None
                  | _ \<Rightarrow> None)))"

definition defaultEventAllowed :: "Event \<Rightarrow> AuthEvents \<Rightarrow> failure option" where
  "defaultEventAllowed event authEvents =
     (case eventAllower_setup authEvents (Sender event) of
        Inl err \<Rightarrow> Some err
      | Inr allower \<Rightarrow> defaultAllowed allower event authEvents)"

definition redactEventAllowed :: "Event \<Rightarrow> AuthEvents \<Rightarrow> failure option" where
  "redactEventAllowed event authEvents =
     (case eventAllower_setup authEvents (Sender event) of
        Inl err \<Rightarrow> Some err
      | Inr allower \<Rightarrow>
     (case defaultAllowed allower event authEvents of
        Some err \<Rightarrow> Some err
      | None \<Rightarrow>
     (case domainFromID (Sender event) of
        Inl err \<Rightarrow> Some err
      | Inr senderDomain \<Rightarrow>
     (case domainFromID (Redacts event) of
        Inl err \<Rightarrow> Some err
      | Inr redactDomain \<Rightarrow>
          if senderDomain = redactDomain then None
          else
            (let senderLevel = userLevel (powerlevels allower) (Sender event);
                 redactLevel' = redactLevel (powerlevels allower)
             in
               if redactLevel' \<le>s senderLevel then None
               else Some (errorf ''%q is not allowed to react message from %q. %d < %d''
                            [Q (Sender event), Q redactDomain, D senderLevel, D redactLevel']))))))"

text \<open>
  \<^verbatim>\<open>isValidUserID\<close> reads \<^verbatim>\<open>userID[0]\<close> before anything else: on the empty string the
  index is out of range.
\<close>

definition isValidUserID :: "string \<Rightarrow> failure + bool" where
  "isValidUserID userID =
     (case userID of
        [] \<Rightarrow> Inl indexOutOfRange
      | c # cs \<Rightarrow> Inr (c = CHR ''@'' \<and> CHR '':'' \<in> set userID))"

text \<open>The loop \<^verbatim>\<open>for userID := range newPowerLevels.userLevels\<close> over the keys.\<close>

fun validUserIDs :: "string list \<Rightarrow> failure option" where
  "validUserIDs [] = None"
| "validUserIDs (userID # userIDs) =
     (case isValidUserID userID of
        Inl e \<Rightarrow> Some e
      | Inr valid \<Rightarrow>
          if \<not> valid then Some (errorf ''Not a valid user ID: %q'' [Q userID])
          else validUserIDs userIDs)"

text \<open>
  The two loops over pairs \<^verbatim>\<open>levelPair{old, new}\<close>. The first denies a change when
  \<^verbatim>\<open>senderLevel < level.old || senderLevel < level.new\<close>, the second when
  \<^verbatim>\<open>senderLevel <= level.old || senderLevel < level.new\<close>.
\<close>

fun checkLevels :: "int64 \<Rightarrow> (int64 \<times> int64) list \<Rightarrow> failure option" where
  "checkLevels senderLevel [] = None"
| "checkLevels senderLevel ((old, new) # levels) =
     (if old \<noteq> new \<and> (senderLevel <s old \<or> senderLevel <s new) then
        Some (errorf ''sender with level %d is not allowed to change level from %d to %d''
                [D senderLevel, D old, D new])
      else checkLevels senderLevel levels)"

fun checkUserLevels :: "int64 \<Rightarrow> (int64 \<times> int64) list \<Rightarrow> failure option" where
  "checkUserLevels senderLevel [] = None"
| "checkUserLevels senderLevel ((old, new) # levels) =
     (if old \<noteq> new \<and> (senderLevel \<le>s old \<or> senderLevel <s new) then
        Some (errorf ''sender with level %d is not allowed to change user level from %d to %d''
                [D senderLevel, D old, D new])
      else checkUserLevels senderLevel levels)"

text \<open>
  \<^verbatim>\<open>powerLevelEventAllowed\<close> (the dispatcher calls it \<^verbatim>\<open>powerLevelsEventAllowed\<close>). The
  source calls \<^verbatim>\<open>allower.setup(authEvents)\<close> without the sender and uses \<^verbatim>\<open>senderLevel\<close>
  without declaring it; as in \<^verbatim>\<open>redactEventAllowed\<close>, the set-up is for \<^verbatim>\<open>event.Sender\<close> and
  \<^verbatim>\<open>senderLevel\<close> is \<^verbatim>\<open>allower.powerlevels.userLevel(event.Sender)\<close>.

  The scoping of the source is kept. In each of the four loops that extend a list the body
  is \<^verbatim>\<open>levelChecks := append(levelChecks, ...)\<close> or \<^verbatim>\<open>userLevelChecks := append(levelChecks, ...)\<close>:
  the \<^verbatim>\<open>:=\<close> declares a new variable of the loop body, and the list declared before the loop
  stays as it was. So \<open>levelChecks\<close> holds the six scalar pairs throughout, and
  \<open>userLevelChecks\<close> the pair of the user defaults. Both checking loops range over
  \<^verbatim>\<open>levelChecks\<close>; \<open>userLevelChecks\<close> and the lists bound in the loop bodies
  (\<open>eventLevelAppends\<close>, \<open>userLevelAppends\<close>) are read by no statement.
\<close>

definition powerLevelEventAllowed :: "Event \<Rightarrow> AuthEvents \<Rightarrow> failure option" where
  "powerLevelEventAllowed event authEvents =
     (case eventAllower_setup authEvents (Sender event) of
        Inl err \<Rightarrow> Some err
      | Inr allower \<Rightarrow>
     (case defaultAllowed allower event authEvents of
        Some err \<Rightarrow> Some err
      | None \<Rightarrow>
     (let oldPowerLevels = powerlevels allower in
      case powerLevelContent_parse event of
        Inl err \<Rightarrow> Some err
      | Inr newPowerLevels \<Rightarrow>
     (case validUserIDs (map fst (userLevels newPowerLevels)) of
        Some err \<Rightarrow> Some err
      | None \<Rightarrow>
     (let senderLevel = userLevel oldPowerLevels (Sender event);
          levelChecks =
            [(banLevel oldPowerLevels, banLevel newPowerLevels),
             (inviteLevel oldPowerLevels, inviteLevel newPowerLevels),
             (kickLevel oldPowerLevels, kickLevel newPowerLevels),
             (redactLevel oldPowerLevels, redactLevel newPowerLevels),
             (stateDefaultLevel oldPowerLevels, stateDefaultLevel newPowerLevels),
             (eventDefaultLevel oldPowerLevels, eventDefaultLevel newPowerLevels)]
      in
     (let eventLevelAppends = \<comment> \<open>the lists the loops of lines 391 and 397 bind in their bodies\<close>
            (map (\<lambda>eventType. levelChecks @
                    [(eventLevel oldPowerLevels eventType None,
                      eventLevel newPowerLevels eventType None)])
               (map fst (eventLevels newPowerLevels)),
             map (\<lambda>eventType. levelChecks @
                    [(eventLevel oldPowerLevels eventType None,
                      eventLevel newPowerLevels eventType None)])
               (map fst (eventLevels oldPowerLevels)))
      in
      case checkLevels senderLevel levelChecks of
        Some err \<Rightarrow> Some err
      | None \<Rightarrow>
     (let userLevelChecks =
            [(userDefaultLevel oldPowerLevels, userDefaultLevel newPowerLevels)];
          userLevelAppends = \<comment> \<open>the lists the loops of lines 418 and 424 bind in their bodies\<close>
            (map (\<lambda>userID. levelChecks @
                    [(userLevel oldPowerLevels userID, userLevel newPowerLevels userID)])
               (map fst (userLevels newPowerLevels)),
             map (\<lambda>userID. levelChecks @
                    [(userLevel oldPowerLevels userID, userLevel newPowerLevels userID)])
               (map fst (userLevels newPowerLevels)))
      in checkUserLevels senderLevel levelChecks)))))))"

subsection \<open>The dispatcher\<close>

definition Allowed :: "Event \<Rightarrow> AuthEvents \<Rightarrow> failure option" where
  "Allowed event authEvents =
     (if Type event = ''m.room.create'' then createEventAllowed event authEvents
      else if Type event = ''m.room.alias'' then aliasEventAllowed event authEvents
      else if Type event = ''m.room.member'' then memberEventAllowed event authEvents
      else if Type event = ''m.room.power_levels'' then powerLevelEventAllowed event authEvents
      else if Type event = ''m.room.redact'' then redactEventAllowed event authEvents
      else defaultEventAllowed event authEvents)"

subsection \<open>A room to evaluate the rules in\<close>

text \<open>
  Room \<^verbatim>\<open>!r:a\<close>, created by \<^verbatim>\<open>@alice:a\<close>. In \<open>exampleNewRoom\<close> the create event is the
  only auth state. In \<open>exampleRoom\<close> \<^verbatim>\<open>@alice:a\<close> has joined and the power levels give her
  level 50, every other level at its default.
\<close>

definition exampleEvent ::
  "string \<Rightarrow> string \<Rightarrow> string option \<Rightarrow> json \<Rightarrow> json list list \<Rightarrow> Event" where
  "exampleEvent eventType sender stateKey content prevEvents =
     \<lparr>RoomID = ''!r:a'', EventID = ''$event:a'', Sender = sender, Type = eventType,
      StateKey = stateKey, Content = content, PrevEvents = prevEvents, Redacts = []\<rparr>"

definition exampleCreate :: Event where
  "exampleCreate =
     (exampleEvent ''m.room.create'' ''@alice:a'' (Some [])
        (JObj [(''creator'', JStr ''@alice:a'')]) [])\<lparr>EventID := ''$create:a''\<rparr>"

definition exampleJoined :: "string \<Rightarrow> Event" where
  "exampleJoined user =
     exampleEvent ''m.room.member'' user (Some user) (JObj [(''membership'', JStr ''join'')])
       [[JStr ''$prev:a'', JObj []]]"

definition examplePowerLevels :: Event where
  "examplePowerLevels =
     exampleEvent ''m.room.power_levels'' ''@alice:a'' (Some [])
       (JObj [(''users'', JObj [(''@alice:a'', JNum 50)])]) [[JStr ''$prev:a'', JObj []]]"

definition exampleNewRoom :: AuthEvents where
  "exampleNewRoom =
     \<lparr>AuthEvents.Create = Inr (Some exampleCreate), AuthEvents.JoinRules = Inr None,
      AuthEvents.PowerLevels = Inr None, AuthEvents.Member = (\<lambda>u. Inr None),
      AuthEvents.ThirdPartyInvite = (\<lambda>t. Inr None)\<rparr>"

definition exampleRoom :: AuthEvents where
  "exampleRoom =
     \<lparr>AuthEvents.Create = Inr (Some exampleCreate), AuthEvents.JoinRules = Inr None,
      AuthEvents.PowerLevels = Inr (Some examplePowerLevels),
      AuthEvents.Member =
        (\<lambda>u. if u = ''@alice:a'' then Inr (Some (exampleJoined ''@alice:a'')) else Inr None),
      AuthEvents.ThirdPartyInvite = (\<lambda>t. Inr None)\<rparr>"

text \<open>The same room created with \<^verbatim>\<open>m.federate\<close> false, before any power-levels event.\<close>

definition exampleUnfederatedRoom :: AuthEvents where
  "exampleUnfederatedRoom =
     \<lparr>AuthEvents.Create =
        Inr (Some (exampleCreate\<lparr>Content :=
          JObj [(''creator'', JStr ''@alice:a''), (''m.federate'', JBool False)]\<rparr>)),
      AuthEvents.JoinRules = Inr None, AuthEvents.PowerLevels = Inr None,
      AuthEvents.Member =
        (\<lambda>u. if u = ''@alice:a'' then Inr (Some (exampleJoined ''@alice:a'')) else Inr None),
      AuthEvents.ThirdPartyInvite = (\<lambda>t. Inr None)\<rparr>"

text \<open>An allower of that room, as \<^verbatim>\<open>setup\<close> builds it while no power-levels event exists.\<close>

definition exampleAllower ::
  "string \<Rightarrow> string \<Rightarrow> string \<Rightarrow> string \<Rightarrow> string \<Rightarrow> membershipAllower" where
  "exampleAllower sender target senderMembership oldMembership newMembership =
     \<lparr>targetID = target, senderID = sender,
      senderMember = \<lparr>Membership = senderMembership, thirdPartyInvite = None\<rparr>,
      oldMember = \<lparr>Membership = oldMembership, thirdPartyInvite = None\<rparr>,
      newMember = \<lparr>Membership = newMembership, thirdPartyInvite = None\<rparr>,
      joinRule = \<lparr>JoinRule = ''invite''\<rparr>,
      create = \<lparr>Creator = ''@alice:a'', federate = True, eventID = ''$create:a''\<rparr>,
      powerLevels = defaultPowerLevels\<lparr>userLevels := [(''@alice:a'', 100)]\<rparr>\<rparr>"

section \<open>Properties\<close>

subsection \<open>Auxiliary facts\<close>

lemmas example_defs = exampleEvent_def exampleCreate_def exampleJoined_def
  examplePowerLevels_def exampleNewRoom_def exampleRoom_def exampleAllower_def
  exampleUnfederatedRoom_def

lemmas content_defs = createContent_load_def memberContent_load_def memberContent_parse_def
  joinRuleContent_load_def powerLevelContent_load_def powerLevelContent_parse_def
  defaultPowerLevels_def jget_def userLevel_def eventLevel_def idAllowed_def domainAllowed_def
  domainFromID_def errorf_def

lemma membershipFailed_isNotAllowed: "isNotAllowed (membershipFailed m)"
  by (simp add: membershipFailed_def errorf_def)

lemma membershipFailed_not_None: "membershipFailed m \<noteq> None"
  by (simp add: membershipFailed_def)

lemma if_not_None: "a \<noteq> None \<Longrightarrow> b \<noteq> None \<Longrightarrow> (if P then a else b) \<noteq> None"
  by simp

text \<open>A chain of admitting branches ends in a denial: it admits iff one branch is taken.\<close>

lemma chain6:
  "f \<noteq> None \<Longrightarrow>
   ((if a then None else if b then None else if c then None else if d then None
     else if e then None else if g then None else f) = (None :: failure option)) =
   (a \<or> b \<or> c \<or> d \<or> e \<or> g)"
  by simp

lemma chain5:
  "f \<noteq> None \<Longrightarrow>
   ((if a then None else if b then None else if c then None else if d then None
     else if e then None else f) = (None :: failure option)) =
   (a \<or> b \<or> c \<or> d \<or> e)"
  by simp

lemma chain6_denial:
  "isNotAllowed f \<Longrightarrow>
   isNotAllowed (if a then None else if b then None else if c then None else if d then None
     else if e then None else if g then None else f) =
   (\<not> (a \<or> b \<or> c \<or> d \<or> e \<or> g))"
  by simp

lemma chain5_denial:
  "isNotAllowed f \<Longrightarrow>
   isNotAllowed (if a then None else if b then None else if c then None else if d then None
     else if e then None else f) =
   (\<not> (a \<or> b \<or> c \<or> d \<or> e))"
  by simp

lemma self_table:
  "(membershipAllowedSelf m = None) =
     (Membership (newMember m) = ''join'' \<and> Membership (oldMember m) = ''leave'' \<and>
        JoinRule (joinRule m) = ''public''
      \<or> Membership (newMember m) = ''join'' \<and> Membership (oldMember m) = ''invite'' \<and>
        (JoinRule (joinRule m) = ''public'' \<or> JoinRule (joinRule m) = ''invite'')
      \<or> Membership (newMember m) = ''join'' \<and> Membership (oldMember m) = ''join''
      \<or> Membership (newMember m) = ''leave'' \<and> Membership (oldMember m) = ''join''
      \<or> Membership (newMember m) = ''leave'' \<and> Membership (oldMember m) = ''invite'')"
  unfolding membershipAllowedSelf_def chain6 [OF membershipFailed_not_None]
  by blast

lemma self_denial:
  "isNotAllowed (membershipAllowedSelf m) = (membershipAllowedSelf m \<noteq> None)"
  unfolding membershipAllowedSelf_def chain6 [OF membershipFailed_not_None]
    chain6_denial [OF membershipFailed_isNotAllowed]
  by (rule refl)

lemma other_table:
  "(membershipAllowedOther m = None) =
     (Membership (senderMember m) = ''join'' \<and>
      (Membership (newMember m) = ''ban'' \<and>
         banLevel (powerLevels m) \<le>s userLevel (powerLevels m) (senderID m) \<and>
         userLevel (powerLevels m) (targetID m) <s userLevel (powerLevels m) (senderID m)
       \<or> Membership (newMember m) = ''leave'' \<and> Membership (oldMember m) = ''ban'' \<and>
         banLevel (powerLevels m) \<le>s userLevel (powerLevels m) (senderID m)
       \<or> Membership (newMember m) = ''leave'' \<and> Membership (oldMember m) \<noteq> ''ban'' \<and>
         kickLevel (powerLevels m) \<le>s userLevel (powerLevels m) (senderID m) \<and>
         userLevel (powerLevels m) (targetID m) <s userLevel (powerLevels m) (senderID m)
       \<or> Membership (newMember m) = ''invite'' \<and>
         (Membership (oldMember m) = ''leave'' \<or> Membership (oldMember m) = ''invite'') \<and>
         inviteLevel (powerLevels m) \<le>s userLevel (powerLevels m) (senderID m)))"
  unfolding membershipAllowedOther_def Let_def chain5 [OF membershipFailed_not_None]
  by blast

lemma other_denial:
  "isNotAllowed (membershipAllowedOther m) = (membershipAllowedOther m \<noteq> None)"
  unfolding membershipAllowedOther_def Let_def chain5 [OF membershipFailed_not_None]
    chain5_denial [OF membershipFailed_isNotAllowed]
  by (rule refl)

lemma other_ban:
  assumes "Membership (newMember m) = ''ban''"
  shows "(membershipAllowedOther m = None) =
     (Membership (senderMember m) = ''join'' \<and>
      sint (banLevel (powerLevels m)) \<le> sint (userLevel (powerLevels m) (senderID m)) \<and>
      sint (userLevel (powerLevels m) (targetID m)) < sint (userLevel (powerLevels m) (senderID m)))"
proof -
  have "Membership (newMember m) \<noteq> ''leave''" "Membership (newMember m) \<noteq> ''invite''"
    using assms by simp_all
  then show ?thesis
    unfolding other_table word_sle_eq word_sless_alt using assms by blast
qed

lemma other_join_knock:
  assumes "Membership (newMember m) = ''join'' \<or> Membership (newMember m) = ''knock''"
  shows "membershipAllowedOther m \<noteq> None"
proof -
  have "Membership (newMember m) \<noteq> ''leave''" "Membership (newMember m) \<noteq> ''invite''"
    "Membership (newMember m) \<noteq> ''ban''"
    using assms by auto
  then show ?thesis
    unfolding other_table by blast
qed

text \<open>What \<^verbatim>\<open>setup\<close> stores in the allower.\<close>

lemma setup_fields:
  assumes "membershipAllower_setup event authEvents = Inr m"
    and "StateKey event = Some target"
  shows "targetID m = target \<and> senderID m = Sender event \<and>
     memberContent_load authEvents (Sender event) = Inr (senderMember m) \<and>
     memberContent_load authEvents target = Inr (oldMember m) \<and>
     memberContent_parse event = Inr (newMember m)"
  using assms unfolding membershipAllower_setup_def
  by (auto split: sum.splits)

lemma setup_loads:
  assumes "membershipAllower_setup event authEvents = Inr m"
    and "StateKey event = Some target"
  shows "targetID m = target \<and> senderID m = Sender event \<and>
     memberContent_load authEvents (Sender event) = Inr (senderMember m) \<and>
     memberContent_load authEvents target = Inr (oldMember m) \<and>
     memberContent_parse event = Inr (newMember m) \<and>
     createContent_load authEvents = Inr (membershipAllower.create m) \<and>
     powerLevelContent_load authEvents (Creator (membershipAllower.create m)) =
       Inr (powerLevels m) \<and>
     joinRuleContent_load authEvents = Inr (joinRule m)"
  using assms unfolding membershipAllower_setup_def
  by (auto split: sum.splits)

lemma load_absent:
  "AuthEvents.Member authEvents u = Inr None \<Longrightarrow> memberContent_load authEvents u = Inr mc
   \<Longrightarrow> Membership mc = ''leave''"
  by (auto simp: memberContent_load_def)

lemma setup_absent:
  assumes "AuthEvents.JoinRules authEvents = Inr None"
    and "AuthEvents.PowerLevels authEvents = Inr None"
    and "\<forall>u. AuthEvents.Member authEvents u = Inr None"
    and "createContent_load authEvents = Inr c"
    and "memberContent_parse event = Inr nm"
    and "StateKey event = Some target"
  shows "membershipAllower_setup event authEvents =
     Inr \<lparr>targetID = target, senderID = Sender event,
          senderMember = \<lparr>Membership = ''leave'', thirdPartyInvite = None\<rparr>,
          oldMember = \<lparr>Membership = ''leave'', thirdPartyInvite = None\<rparr>,
          newMember = nm, joinRule = \<lparr>JoinRule = ''invite''\<rparr>,
          create = c,
          powerLevels = defaultPowerLevels\<lparr>userLevels := [(Creator c, 100)]\<rparr>\<rparr>"
  using assms
  by (simp add: membershipAllower_setup_def memberContent_load_def
      powerLevelContent_load_def joinRuleContent_load_def)

text \<open>Every definition a rule unfolds to, for evaluating a rule on the example room.\<close>

lemmas rule_eval = Allowed_def powerLevelEventAllowed_def eventAllower_setup_def
  defaultAllowed_def defaultEventAllowed_def aliasEventAllowed_def memberEventAllowed_def
  memberEventAllowedUsual_def membershipAllower_setup_def membershipAllowed_def
  membershipAllowedSelf_def membershipAllowedOther_def membershipFailed_def
  isValidUserID_def indexOutOfRange_def example_defs content_defs

text \<open>The second checking loop passes a list iff each changed pair has
  \<open>old < senderLevel\<close> and \<open>new \<le> senderLevel\<close>; the first iff each changed pair has
  \<open>old \<le> senderLevel\<close> and \<open>new \<le> senderLevel\<close>.\<close>

lemma checkUserLevels_iff:
  "(checkUserLevels senderLevel levels = None) =
     list_all (\<lambda>(old, new). old = new \<or> sint old < sint senderLevel \<and> sint new \<le> sint senderLevel)
       levels"
  by (induction levels) (auto simp: word_sle_eq word_sless_alt split: if_splits)

lemma checkUserLevels_denial:
  "isNotAllowed (checkUserLevels senderLevel levels) = (checkUserLevels senderLevel levels \<noteq> None)"
  by (induction levels) (auto simp: errorf_def split: if_splits)

lemma checkLevels_iff:
  "(checkLevels senderLevel levels = None) =
     list_all (\<lambda>(old, new). old = new \<or> sint old \<le> sint senderLevel \<and> sint new \<le> sint senderLevel)
       levels"
  by (induction levels) (auto simp: word_sle_eq word_sless_alt split: if_splits)

lemma idAllowed_creator:
  "federate c \<or> CHR '':'' \<in> set (Creator c) \<Longrightarrow> idAllowed c (Creator c) = None"
  by (auto simp: idAllowed_def domainAllowed_def domainFromID_def)

text \<open>With no member entry, no join rules and no power levels, the usual authentication
  process admits nothing.\<close>

lemma usual_absent:
  assumes "AuthEvents.JoinRules authEvents = Inr None"
    and "AuthEvents.PowerLevels authEvents = Inr None"
    and "\<forall>u. AuthEvents.Member authEvents u = Inr None"
    and "createContent_load authEvents = Inr c"
    and "memberContent_parse event = Inr nm"
    and "StateKey event = Some target"
  shows "memberEventAllowedUsual event authEvents c nm target \<noteq> None"
proof (cases "idAllowed c target")
  case (Some e)
  then show ?thesis by (simp add: memberEventAllowedUsual_def)
next
  case None
  show ?thesis
  proof (cases "Membership nm = ''invite'' \<and> thirdPartyInvite nm \<noteq> None")
    case True
    then show ?thesis using None by (simp add: memberEventAllowedUsual_def)
  next
    case False
    let ?m = "\<lparr>targetID = target, senderID = Sender event,
          senderMember = \<lparr>Membership = ''leave'', thirdPartyInvite = None\<rparr>,
          oldMember = \<lparr>Membership = ''leave'', thirdPartyInvite = None\<rparr>,
          newMember = nm, joinRule = \<lparr>JoinRule = ''invite''\<rparr>,
          create = c,
          powerLevels = defaultPowerLevels\<lparr>userLevels := [(Creator c, 100)]\<rparr>\<rparr>"
    have self: "membershipAllowedSelf ?m \<noteq> None"
      unfolding self_table by simp
    have other: "membershipAllowedOther ?m \<noteq> None"
      unfolding other_table by simp
    have "membershipAllowed ?m \<noteq> None"
      unfolding membershipAllowed_def by (rule if_not_None [OF self other])
    then show ?thesis
      using None False setup_absent [OF assms]
      by (simp add: memberEventAllowedUsual_def)
  qed
qed

lemma first_join_admitted:
  assumes load: "createContent_load authEvents = Inr c"
    and fed: "federate c \<or> CHR '':'' \<in> set (Creator c)"
    and parse: "memberContent_parse event = Inr nm"
    and join: "Membership nm = ''join''"
    and creator: "Sender event = Creator c"
    and key: "StateKey event = Some (Creator c)"
    and prev: "length (PrevEvents event) = 1" "length (PrevEvents event ! 0) = 2"
      "unmarshalString (PrevEvents event ! 0 ! 0) = Some (eventID c)"
  shows "memberEventAllowed event authEvents = None"
proof -
  have "idAllowed c (Sender event) = None"
    using fed creator idAllowed_creator [of c] by simp
  then show ?thesis
    unfolding memberEventAllowed_def
    using load parse join key creator prev by simp
qed

lemma admitted_absent_is_first_join:
  assumes absent: "AuthEvents.JoinRules authEvents = Inr None"
    "AuthEvents.PowerLevels authEvents = Inr None"
    "\<forall>u. AuthEvents.Member authEvents u = Inr None"
    and ok: "memberEventAllowed event authEvents = None"
  shows "\<exists>c nm. createContent_load authEvents = Inr c \<and>
           memberContent_parse event = Inr nm \<and> Membership nm = ''join'' \<and>
           Sender event = Creator c \<and> StateKey event = Some (Creator c) \<and>
           length (PrevEvents event) = 1 \<and> length (PrevEvents event ! 0) = 2 \<and>
           unmarshalString (PrevEvents event ! 0 ! 0) = Some (eventID c)"
proof -
  obtain c where c: "createContent_load authEvents = Inr c"
    using ok by (cases "createContent_load authEvents") (simp_all add: memberEventAllowed_def)
  have ida: "idAllowed c (Sender event) = None"
    using ok c by (cases "idAllowed c (Sender event)") (simp_all add: memberEventAllowed_def)
  obtain nm where nm: "memberContent_parse event = Inr nm"
    using ok c ida by (cases "memberContent_parse event") (simp_all add: memberEventAllowed_def)
  obtain target where t: "StateKey event = Some target"
    using ok c ida nm by (cases "StateKey event") (simp_all add: memberEventAllowed_def errorf_def)
  note usual = usual_absent [OF absent c nm t]
  have first: "length (PrevEvents event) = 1 \<and> Membership nm = ''join'' \<and>
      Creator c = target \<and> Sender event = target"
    using ok c ida nm t usual by (auto simp: memberEventAllowed_def split: if_splits)
  have rest: "length (PrevEvents event ! 0) = 2 \<and>
      unmarshalString (PrevEvents event ! 0 ! 0) = Some (eventID c)"
    using ok c ida nm t usual first
    by (auto simp: memberEventAllowed_def errorf_def split: if_splits option.splits)
  show ?thesis using c nm t first rest by auto
qed

text \<open>An invite that carries a third-party invite is never admitted.\<close>

lemma never_tpi_admitted:
  assumes "memberContent_parse event = Inr nm"
    and "Membership nm = ''invite''" and "thirdPartyInvite nm \<noteq> None"
  shows "memberEventAllowed event authEvents \<noteq> None"
proof -
  have usual: "memberEventAllowedUsual event authEvents c nm t \<noteq> None" for c t
    using assms(2,3) by (cases "idAllowed c t") (simp_all add: memberEventAllowedUsual_def)
  have nj: "Membership nm \<noteq> ''join''" using assms(2) by simp
  show ?thesis
  proof (cases "createContent_load authEvents")
    case (Inl e) then show ?thesis by (simp add: memberEventAllowed_def)
  next
    case (Inr c)
    show ?thesis
    proof (cases "idAllowed c (Sender event)")
      case (Some e) then show ?thesis using Inr by (simp add: memberEventAllowed_def)
    next
      case None
      show ?thesis
      proof (cases "StateKey event")
        case None then show ?thesis
          using Inr \<open>idAllowed c (Sender event) = None\<close> assms(1)
          by (simp add: memberEventAllowed_def)
      next
        case (Some t)
        then show ?thesis
          using Inr \<open>idAllowed c (Sender event) = None\<close> assms(1) nj usual [of c t]
          by (simp add: memberEventAllowed_def)
      qed
    qed
  qed
qed

subsection \<open>The power-levels rule\<close>

text \<open>
  Claim C1, as amended. The specification asks, for each user whose level changes from
  \<open>old\<close> to \<open>new\<close>, for \<open>S > old\<close> and \<open>S \<ge> new\<close>, for \<open>S > new\<close> besides when the user is
  not the sender, and for a sender to be free to lower their own level. The check that
  \<^verbatim>\<open>powerLevelEventAllowed\<close> has for user levels, its last loop, is one predicate for every
  pair: a list of pairs passes iff every pair with \<open>old \<noteq> new\<close> has \<open>S > old\<close> and
  \<open>S \<ge> new\<close>, and a list that does not pass is denied with a \<open>NotAllowed\<close>. The affected
  user is no input of the check, so it asks for no \<open>S > new\<close> when the user is another, and
  it has no exemption for the sender's own level.
\<close>

theorem user_level_check:
  "(checkUserLevels S levels = None) =
     list_all (\<lambda>(old, new). old = new \<or> sint old < sint S \<and> sint new \<le> sint S) levels
   \<and> isNotAllowed (checkUserLevels S levels) = (checkUserLevels S levels \<noteq> None)"
  using checkUserLevels_iff [of S levels] checkUserLevels_denial [of S levels] by blast

text \<open>
  Claim C1 as stated fails: in the example room \<^verbatim>\<open>@alice:a\<close>, of level 50, raises
  \<^verbatim>\<open>@bob:b\<close> from the default 0 to 50, her own level, and the event is admitted, where the
  claim asks for \<open>S > new\<close>.
\<close>

theorem user_raised_to_sender_level_admitted:
  "Allowed (exampleEvent ''m.room.power_levels'' ''@alice:a'' (Some [])
       (JObj [(''users'', JObj [(''@alice:a'', JNum 50), (''@bob:b'', JNum 50)])])
       [[JStr ''$prev:a'', JObj []]]) exampleRoom = None \<and>
   powerLevelContent_load exampleRoom ''@alice:a'' =
     Inr (defaultPowerLevels\<lparr>userLevels := [(''@alice:a'', 50)]\<rparr>) \<and>
   powerLevelContent_parse (exampleEvent ''m.room.power_levels'' ''@alice:a'' (Some [])
       (JObj [(''users'', JObj [(''@alice:a'', JNum 50), (''@bob:b'', JNum 50)])])
       [[JStr ''$prev:a'', JObj []]]) =
     Inr (defaultPowerLevels\<lparr>userLevels := [(''@alice:a'', 50), (''@bob:b'', 50)]\<rparr>) \<and>
   userLevel (defaultPowerLevels\<lparr>userLevels := [(''@alice:a'', 50)]\<rparr>) ''@alice:a'' = 50 \<and>
   userLevel (defaultPowerLevels\<lparr>userLevels := [(''@alice:a'', 50)]\<rparr>) ''@bob:b'' = 0 \<and>
   userLevel (defaultPowerLevels\<lparr>userLevels := [(''@alice:a'', 50), (''@bob:b'', 50)]\<rparr>)
     ''@bob:b'' = 50"
  by (simp add: rule_eval)

text \<open>
  Claim C2: a power-levels event is admitted iff \<open>S \<ge> max old new\<close> for every scalar or
  event-type level that changes. The code differs at two inputs. \<^verbatim>\<open>@alice:a\<close>, of level 50,
  lowers \<^verbatim>\<open>ban\<close> from 50 to 40: the first loop passes the pair and the last loop, which
  ranges over the scalar pairs again, denies it for \<open>S \<le> old\<close>. And she raises the level
  of \<^verbatim>\<open>m.room.name\<close> events from the default 0 to 100: no event-type pair is in the list
  that is checked, and the event is admitted.
\<close>

theorem scalar_change_at_sender_level_denied:
  "Allowed (exampleEvent ''m.room.power_levels'' ''@alice:a'' (Some [])
       (JObj [(''ban'', JNum 40), (''users'', JObj [(''@alice:a'', JNum 50)])])
       [[JStr ''$prev:a'', JObj []]]) exampleRoom =
     Some (NotAllowed ''sender with level %d is not allowed to change user level from %d to %d''
       [D 50, D 50, D 40]) \<and>
   Allowed (exampleEvent ''m.room.power_levels'' ''@alice:a'' (Some [])
       (JObj [(''events'', JObj [(''m.room.name'', JNum 100)]),
              (''users'', JObj [(''@alice:a'', JNum 50)])])
       [[JStr ''$prev:a'', JObj []]]) exampleRoom = None"
  by (simp add: rule_eval)

subsection \<open>The member rule\<close>

text \<open>
  Claim C3: a member event with exactly one prior-event reference, new membership
  \<^verbatim>\<open>join\<close>, sender and state key equal to the creator of the create event, and the
  identifier of that reference equal to the ID of the create event, is admitted; and when
  the join rules, the power levels and every member entry are absent, a member event that
  is admitted is such an event. (A reference is a pair, as the source checks before it
  reads the identifier; in a room that does not federate the creator's ID must have a
  domain for the federation policy to pass.)
\<close>

theorem creator_first_join:
  assumes "Type event = ''m.room.member''"
  shows "(\<forall>c nm. createContent_load authEvents = Inr c \<and>
            (federate c \<or> CHR '':'' \<in> set (Creator c)) \<and>
            memberContent_parse event = Inr nm \<and> Membership nm = ''join'' \<and>
            Sender event = Creator c \<and> StateKey event = Some (Creator c) \<and>
            length (PrevEvents event) = 1 \<and> length (PrevEvents event ! 0) = 2 \<and>
            unmarshalString (PrevEvents event ! 0 ! 0) = Some (eventID c) \<longrightarrow>
            Allowed event authEvents = None)
    \<and> (AuthEvents.JoinRules authEvents = Inr None \<and>
        AuthEvents.PowerLevels authEvents = Inr None \<and>
        (\<forall>u. AuthEvents.Member authEvents u = Inr None) \<and>
        Allowed event authEvents = None \<longrightarrow>
        (\<exists>c nm. createContent_load authEvents = Inr c \<and>
           memberContent_parse event = Inr nm \<and> Membership nm = ''join'' \<and>
           Sender event = Creator c \<and> StateKey event = Some (Creator c) \<and>
           length (PrevEvents event) = 1 \<and> length (PrevEvents event ! 0) = 2 \<and>
           unmarshalString (PrevEvents event ! 0 ! 0) = Some (eventID c)))"
proof -
  have disp: "Allowed event authEvents = memberEventAllowed event authEvents"
    using assms by (simp add: Allowed_def)
  show ?thesis
    unfolding disp
    using first_join_admitted [of authEvents _ event]
      admitted_absent_is_first_join [of authEvents event]
    by blast
qed

theorem creator_first_join_witness:
  "Type (exampleEvent ''m.room.member'' ''@alice:a'' (Some ''@alice:a'')
       (JObj [(''membership'', JStr ''join'')]) [[JStr ''$create:a'', JObj []]])
     = ''m.room.member'' \<and>
   Allowed (exampleEvent ''m.room.member'' ''@alice:a'' (Some ''@alice:a'')
       (JObj [(''membership'', JStr ''join'')]) [[JStr ''$create:a'', JObj []]])
     exampleNewRoom = None \<and>
   Allowed (exampleEvent ''m.room.member'' ''@alice:a'' (Some ''@alice:a'')
       (JObj [(''membership'', JStr ''join'')]) [[JStr ''$other:a'', JObj []]])
     exampleNewRoom \<noteq> None"
proof -
  let ?first = "exampleEvent ''m.room.member'' ''@alice:a'' (Some ''@alice:a'')
       (JObj [(''membership'', JStr ''join'')]) [[JStr ''$create:a'', JObj []]]"
  let ?other = "exampleEvent ''m.room.member'' ''@alice:a'' (Some ''@alice:a'')
       (JObj [(''membership'', JStr ''join'')]) [[JStr ''$other:a'', JObj []]]"
  let ?c = "\<lparr>Creator = ''@alice:a'', federate = True, eventID = ''$create:a''\<rparr>"
  let ?nm = "\<lparr>Membership = ''join'', thirdPartyInvite = None\<rparr>"
  have type: "Type ?first = ''m.room.member''" "Type ?other = ''m.room.member''"
    by (simp_all add: exampleEvent_def)
  have load: "createContent_load exampleNewRoom = Inr ?c"
    by (simp add: example_defs content_defs)
  have hyps: "createContent_load exampleNewRoom = Inr ?c \<and>
      (federate ?c \<or> CHR '':'' \<in> set (Creator ?c)) \<and>
      memberContent_parse ?first = Inr ?nm \<and> Membership ?nm = ''join'' \<and>
      Sender ?first = Creator ?c \<and> StateKey ?first = Some (Creator ?c) \<and>
      length (PrevEvents ?first) = 1 \<and> length (PrevEvents ?first ! 0) = 2 \<and>
      unmarshalString (PrevEvents ?first ! 0 ! 0) = Some (eventID ?c)"
    by (simp add: example_defs content_defs)
  have admitted: "Allowed ?first exampleNewRoom = None"
    using creator_first_join [OF type(1), of exampleNewRoom] hyps by blast
  have absent: "AuthEvents.JoinRules exampleNewRoom = Inr None \<and>
      AuthEvents.PowerLevels exampleNewRoom = Inr None \<and>
      (\<forall>u. AuthEvents.Member exampleNewRoom u = Inr None)"
    by (simp add: exampleNewRoom_def)
  have "Allowed ?other exampleNewRoom \<noteq> None"
  proof
    assume "Allowed ?other exampleNewRoom = None"
    with creator_first_join [OF type(2), of exampleNewRoom] absent
    obtain c where "createContent_load exampleNewRoom = Inr c"
      "unmarshalString (PrevEvents ?other ! 0 ! 0) = Some (eventID c)"
      by blast
    then show False using load by (auto simp: exampleEvent_def)
  qed
  then show ?thesis using type(1) admitted by simp
qed

text \<open>
  Claim C4: for a member event whose sender is the target, the transition machine admits
  exactly \<^verbatim>\<open>leave\<close> to \<^verbatim>\<open>join\<close> under the join rule \<^verbatim>\<open>public\<close>, \<^verbatim>\<open>invite\<close> to \<^verbatim>\<open>join\<close>
  under \<^verbatim>\<open>public\<close> or \<^verbatim>\<open>invite\<close>, \<^verbatim>\<open>join\<close> to \<^verbatim>\<open>join\<close>, \<^verbatim>\<open>join\<close> to \<^verbatim>\<open>leave\<close> and
  \<^verbatim>\<open>invite\<close> to \<^verbatim>\<open>leave\<close>; every other transition is denied; and the old membership of
  a target without a member entry is \<^verbatim>\<open>leave\<close>.
\<close>

theorem self_transitions:
  assumes "targetID m = senderID m"
  shows "(membershipAllowed m = None) =
     (Membership (newMember m) = ''join'' \<and> Membership (oldMember m) = ''leave'' \<and>
        JoinRule (joinRule m) = ''public''
      \<or> Membership (newMember m) = ''join'' \<and> Membership (oldMember m) = ''invite'' \<and>
        (JoinRule (joinRule m) = ''public'' \<or> JoinRule (joinRule m) = ''invite'')
      \<or> Membership (newMember m) = ''join'' \<and> Membership (oldMember m) = ''join''
      \<or> Membership (newMember m) = ''leave'' \<and> Membership (oldMember m) = ''join''
      \<or> Membership (newMember m) = ''leave'' \<and> Membership (oldMember m) = ''invite'')
    \<and> isNotAllowed (membershipAllowed m) = (membershipAllowed m \<noteq> None)
    \<and> (\<forall>event authEvents.
          membershipAllower_setup event authEvents = Inr m \<and>
          StateKey event = Some (targetID m) \<and>
          AuthEvents.Member authEvents (targetID m) = Inr None \<longrightarrow>
          Membership (oldMember m) = ''leave'')"
proof -
  have eq: "membershipAllowed m = membershipAllowedSelf m"
    using assms by (simp add: membershipAllowed_def)
  have absent: "Membership (oldMember m) = ''leave''"
    if "membershipAllower_setup event authEvents = Inr m"
      and "StateKey event = Some (targetID m)"
      and "AuthEvents.Member authEvents (targetID m) = Inr None"
    for event authEvents
    using setup_fields [OF that(1,2)] load_absent [OF that(3)] by blast
  show ?thesis
    unfolding eq using self_table [of m] self_denial [of m] absent by blast
qed

theorem self_transitions_witness:
  "targetID (exampleAllower ''@bob:b'' ''@bob:b'' ''leave'' ''leave'' ''join'') =
     senderID (exampleAllower ''@bob:b'' ''@bob:b'' ''leave'' ''leave'' ''join'') \<and>
   membershipAllower_setup (exampleJoined ''@bob:b'') exampleNewRoom =
     Inr (exampleAllower ''@bob:b'' ''@bob:b'' ''leave'' ''leave'' ''join'') \<and>
   isNotAllowed (membershipAllowed (exampleAllower ''@bob:b'' ''@bob:b'' ''leave'' ''leave'' ''join''))
   \<and> targetID (exampleAllower ''@bob:b'' ''@bob:b'' ''leave'' ''invite'' ''join'') =
     senderID (exampleAllower ''@bob:b'' ''@bob:b'' ''leave'' ''invite'' ''join'') \<and>
   membershipAllowed (exampleAllower ''@bob:b'' ''@bob:b'' ''leave'' ''invite'' ''join'') = None"
proof -
  let ?denied = "exampleAllower ''@bob:b'' ''@bob:b'' ''leave'' ''leave'' ''join''"
  let ?admitted = "exampleAllower ''@bob:b'' ''@bob:b'' ''leave'' ''invite'' ''join''"
  have self: "targetID ?denied = senderID ?denied" "targetID ?admitted = senderID ?admitted"
    by (simp_all add: exampleAllower_def)
  have built: "membershipAllower_setup (exampleJoined ''@bob:b'') exampleNewRoom = Inr ?denied"
    by (simp add: membershipAllower_setup_def example_defs content_defs)
  have fields: "Membership (newMember ?denied) = ''join''"
    "Membership (oldMember ?denied) = ''leave''" "JoinRule (joinRule ?denied) = ''invite''"
    "Membership (newMember ?admitted) = ''join''"
    "Membership (oldMember ?admitted) = ''invite''" "JoinRule (joinRule ?admitted) = ''invite''"
    by (simp_all add: exampleAllower_def)
  have "isNotAllowed (membershipAllowed ?denied)"
    using self_transitions [OF self(1)] fields(1-3) by simp
  moreover have "membershipAllowed ?admitted = None"
    using self_transitions [OF self(2)] fields(4-6) by simp
  ultimately show ?thesis using self built by simp
qed

text \<open>
  Claim C5, as amended. A member event by which a sender bans another user is admitted
  iff the create event loads, the sender and the target pass its federation policy, the
  member entries of both, the power levels and the join rules load without an error, the
  sender's membership is \<^verbatim>\<open>join\<close>, the sender's level is at least the ban level and it is
  greater than the target's level.
\<close>

theorem ban_event:
  assumes "Type event = ''m.room.member''"
    and "StateKey event = Some target" and "target \<noteq> Sender event"
    and "memberContent_parse event = Inr nm" and "Membership nm = ''ban''"
  shows "(Allowed event authEvents = None) =
     (\<exists>c sm om pl jr.
        createContent_load authEvents = Inr c \<and>
        idAllowed c (Sender event) = None \<and> idAllowed c target = None \<and>
        memberContent_load authEvents (Sender event) = Inr sm \<and>
        memberContent_load authEvents target = Inr om \<and>
        powerLevelContent_load authEvents (Creator c) = Inr pl \<and>
        joinRuleContent_load authEvents = Inr jr \<and>
        Membership sm = ''join'' \<and>
        sint (banLevel pl) \<le> sint (userLevel pl (Sender event)) \<and>
        sint (userLevel pl target) < sint (userLevel pl (Sender event)))"
    (is "?admitted = ?conditions")
proof -
  have disp: "Allowed event authEvents = memberEventAllowed event authEvents"
    using assms(1) by (simp add: Allowed_def)
  have ni: "Membership nm \<noteq> ''invite''" using assms(5) by simp
  have usual: "memberEventAllowed event authEvents =
      memberEventAllowedUsual event authEvents c nm target"
    if "createContent_load authEvents = Inr c" "idAllowed c (Sender event) = None" for c
    using that assms(2-4) by (simp add: memberEventAllowed_def)
  have machine: "(membershipAllowed m = None) =
      (Membership (senderMember m) = ''join'' \<and>
       sint (banLevel (powerLevels m)) \<le> sint (userLevel (powerLevels m) (Sender event)) \<and>
       sint (userLevel (powerLevels m) target) < sint (userLevel (powerLevels m) (Sender event)))"
    if "targetID m = target" "senderID m = Sender event" "newMember m = nm" for m
    using that assms(3,5) other_ban [of m] by (simp add: membershipAllowed_def)
  show ?thesis
  proof
    assume "?admitted"
    then have ok: "memberEventAllowed event authEvents = None" using disp by simp
    obtain c where c: "createContent_load authEvents = Inr c"
      using ok by (cases "createContent_load authEvents") (simp_all add: memberEventAllowed_def)
    have ids: "idAllowed c (Sender event) = None"
      using ok c by (cases "idAllowed c (Sender event)") (simp_all add: memberEventAllowed_def)
    have u: "memberEventAllowedUsual event authEvents c nm target = None"
      using ok usual [OF c ids] by simp
    have idt: "idAllowed c target = None"
      using u by (cases "idAllowed c target") (simp_all add: memberEventAllowedUsual_def)
    obtain m where m: "membershipAllower_setup event authEvents = Inr m"
      using u idt ni
      by (cases "membershipAllower_setup event authEvents")
         (simp_all add: memberEventAllowedUsual_def)
    have allowed: "membershipAllowed m = None"
      using u idt ni m by (simp add: memberEventAllowedUsual_def)
    from setup_loads [OF m assms(2)] c assms(4)
    have f: "targetID m = target" "senderID m = Sender event" "newMember m = nm"
      "memberContent_load authEvents (Sender event) = Inr (senderMember m)"
      "memberContent_load authEvents target = Inr (oldMember m)"
      "powerLevelContent_load authEvents (Creator c) = Inr (powerLevels m)"
      "joinRuleContent_load authEvents = Inr (joinRule m)"
      by simp_all
    show "?conditions"
      using c ids idt f(4-7) allowed machine [OF f(1-3)] by blast
  next
    assume "?conditions"
    then obtain c sm om pl jr where h:
      "createContent_load authEvents = Inr c"
      "idAllowed c (Sender event) = None" "idAllowed c target = None"
      "memberContent_load authEvents (Sender event) = Inr sm"
      "memberContent_load authEvents target = Inr om"
      "powerLevelContent_load authEvents (Creator c) = Inr pl"
      "joinRuleContent_load authEvents = Inr jr"
      "Membership sm = ''join''"
      "sint (banLevel pl) \<le> sint (userLevel pl (Sender event))"
      "sint (userLevel pl target) < sint (userLevel pl (Sender event))"
      by blast
    let ?m = "\<lparr>targetID = target, senderID = Sender event, senderMember = sm,
        oldMember = om, newMember = nm, joinRule = jr, create = c, powerLevels = pl\<rparr>"
    have m: "membershipAllower_setup event authEvents = Inr ?m"
      using h(1,4-7) assms(2,4) by (simp add: membershipAllower_setup_def)
    have "membershipAllowed ?m = None"
      using machine [of ?m] h(8-10) by simp
    then have "memberEventAllowedUsual event authEvents c nm target = None"
      using h(3) ni m by (simp add: memberEventAllowedUsual_def)
    then show "?admitted"
      using disp usual [OF h(1,2)] by simp
  qed
qed

theorem ban_event_witness:
  "Type (exampleEvent ''m.room.member'' ''@alice:a'' (Some ''@bob:b'')
       (JObj [(''membership'', JStr ''ban'')]) [[JStr ''$prev:a'', JObj []]]) = ''m.room.member'' \<and>
   StateKey (exampleEvent ''m.room.member'' ''@alice:a'' (Some ''@bob:b'')
       (JObj [(''membership'', JStr ''ban'')]) [[JStr ''$prev:a'', JObj []]]) = Some ''@bob:b'' \<and>
   ''@bob:b'' \<noteq> Sender (exampleEvent ''m.room.member'' ''@alice:a'' (Some ''@bob:b'')
       (JObj [(''membership'', JStr ''ban'')]) [[JStr ''$prev:a'', JObj []]]) \<and>
   memberContent_parse (exampleEvent ''m.room.member'' ''@alice:a'' (Some ''@bob:b'')
       (JObj [(''membership'', JStr ''ban'')]) [[JStr ''$prev:a'', JObj []]]) =
     Inr \<lparr>Membership = ''ban'', thirdPartyInvite = None\<rparr> \<and>
   Allowed (exampleEvent ''m.room.member'' ''@alice:a'' (Some ''@bob:b'')
       (JObj [(''membership'', JStr ''ban'')]) [[JStr ''$prev:a'', JObj []]]) exampleRoom = None"
proof -
  let ?ban = "exampleEvent ''m.room.member'' ''@alice:a'' (Some ''@bob:b'')
       (JObj [(''membership'', JStr ''ban'')]) [[JStr ''$prev:a'', JObj []]]"
  let ?nm = "\<lparr>Membership = ''ban'', thirdPartyInvite = None\<rparr>"
  let ?c = "\<lparr>Creator = ''@alice:a'', federate = True, eventID = ''$create:a''\<rparr>"
  let ?joined = "\<lparr>Membership = ''join'', thirdPartyInvite = None\<rparr>"
  let ?left = "\<lparr>Membership = ''leave'', thirdPartyInvite = None\<rparr>"
  let ?pl = "defaultPowerLevels\<lparr>userLevels := [(''@alice:a'', 50)]\<rparr>"
  have type: "Type ?ban = ''m.room.member''" and key: "StateKey ?ban = Some ''@bob:b''"
    and other: "''@bob:b'' \<noteq> Sender ?ban"
    by (simp_all add: exampleEvent_def)
  have parse: "memberContent_parse ?ban = Inr ?nm"
    by (simp add: example_defs content_defs)
  have nm: "Membership ?nm = ''ban''" by simp
  have conditions: "createContent_load exampleRoom = Inr ?c \<and>
      idAllowed ?c (Sender ?ban) = None \<and> idAllowed ?c ''@bob:b'' = None \<and>
      memberContent_load exampleRoom (Sender ?ban) = Inr ?joined \<and>
      memberContent_load exampleRoom ''@bob:b'' = Inr ?left \<and>
      powerLevelContent_load exampleRoom (Creator ?c) = Inr ?pl \<and>
      joinRuleContent_load exampleRoom = Inr \<lparr>JoinRule = ''invite''\<rparr> \<and>
      Membership ?joined = ''join'' \<and>
      sint (banLevel ?pl) \<le> sint (userLevel ?pl (Sender ?ban)) \<and>
      sint (userLevel ?pl ''@bob:b'') < sint (userLevel ?pl (Sender ?ban))"
    by (simp add: example_defs content_defs)
  have "Allowed ?ban exampleRoom = None"
    using ban_event [OF type key other parse nm, of exampleRoom] conditions by blast
  then show ?thesis using type key other parse by simp
qed

text \<open>
  Claim C5 as stated fails. In a room with \<^verbatim>\<open>m.federate\<close> false, \<^verbatim>\<open>@alice:a\<close>, joined and of
  level 100, bans \<^verbatim>\<open>@bob:b\<close>, of level 0, at ban level 50: the target's domain is not the
  creator's, and the event is denied. In the example room, where her level 50 is the ban
  level and his is 0, an error of the oracle for the join rules is the result.
\<close>

theorem ban_denied_for_federation_or_oracle_error:
  "Allowed (exampleEvent ''m.room.member'' ''@alice:a'' (Some ''@bob:b'')
       (JObj [(''membership'', JStr ''ban'')]) [[JStr ''$prev:a'', JObj []]])
     exampleUnfederatedRoom =
     Some (NotAllowed ''room is unfederatable: %q domain not in room'' [Q ''b'']) \<and>
   memberContent_load exampleUnfederatedRoom ''@alice:a'' =
     Inr \<lparr>Membership = ''join'', thirdPartyInvite = None\<rparr> \<and>
   powerLevelContent_load exampleUnfederatedRoom ''@alice:a'' =
     Inr (defaultPowerLevels\<lparr>userLevels := [(''@alice:a'', 100)]\<rparr>) \<and>
   sint (banLevel (defaultPowerLevels\<lparr>userLevels := [(''@alice:a'', 100)]\<rparr>)) = 50 \<and>
   sint (userLevel (defaultPowerLevels\<lparr>userLevels := [(''@alice:a'', 100)]\<rparr>) ''@alice:a'') = 100 \<and>
   sint (userLevel (defaultPowerLevels\<lparr>userLevels := [(''@alice:a'', 100)]\<rparr>) ''@bob:b'') = 0 \<and>
   Allowed (exampleEvent ''m.room.member'' ''@alice:a'' (Some ''@bob:b'')
       (JObj [(''membership'', JStr ''ban'')]) [[JStr ''$prev:a'', JObj []]])
     (exampleRoom\<lparr>AuthEvents.JoinRules := Inl (OracleError ''storage'')\<rparr>) =
     Some (OracleError ''storage'') \<and>
   memberContent_load (exampleRoom\<lparr>AuthEvents.JoinRules := Inl (OracleError ''storage'')\<rparr>)
     ''@alice:a'' = Inr \<lparr>Membership = ''join'', thirdPartyInvite = None\<rparr> \<and>
   powerLevelContent_load (exampleRoom\<lparr>AuthEvents.JoinRules := Inl (OracleError ''storage'')\<rparr>)
     ''@alice:a'' = Inr (defaultPowerLevels\<lparr>userLevels := [(''@alice:a'', 50)]\<rparr>) \<and>
   sint (userLevel (defaultPowerLevels\<lparr>userLevels := [(''@alice:a'', 50)]\<rparr>) ''@alice:a'') = 50 \<and>
   sint (userLevel (defaultPowerLevels\<lparr>userLevels := [(''@alice:a'', 50)]\<rparr>) ''@bob:b'') = 0"
  by (simp add: rule_eval)

text \<open>
  Claim C7, as amended. A member event whose new membership is \<^verbatim>\<open>invite\<close> and whose
  content carries a third-party invite is never admitted, and it gets no \<open>NotAllowed\<close> for
  the missing verifier: once the create event has loaded, the sender and the target pass
  the federation policy and the state key is there, \<^verbatim>\<open>Allowed\<close> panics with the error
  \<^verbatim>\<open>ThirdPartyInvite not implemented\<close>, which aborts the caller.
\<close>

theorem third_party_invite_panics:
  assumes "Type event = ''m.room.member''"
    and "memberContent_parse event = Inr nm"
    and "Membership nm = ''invite''" and "thirdPartyInvite nm \<noteq> None"
  shows "Allowed event authEvents \<noteq> None \<and>
    (\<forall>c target. createContent_load authEvents = Inr c \<and> idAllowed c (Sender event) = None \<and>
        StateKey event = Some target \<and> idAllowed c target = None \<longrightarrow>
        Allowed event authEvents = Some (Panic ''ThirdPartyInvite not implemented''))"
proof -
  have disp: "Allowed event authEvents = memberEventAllowed event authEvents"
    using assms(1) by (simp add: Allowed_def)
  have nj: "Membership nm \<noteq> ''join''" using assms(3) by simp
  have "memberEventAllowed event authEvents = Some (Panic ''ThirdPartyInvite not implemented'')"
    if "createContent_load authEvents = Inr c" "idAllowed c (Sender event) = None"
      "StateKey event = Some target" "idAllowed c target = None" for c target
    using that assms(2-4) nj
    by (simp add: memberEventAllowed_def memberEventAllowedUsual_def)
  then show ?thesis
    unfolding disp using never_tpi_admitted [OF assms(2-4)] by blast
qed

theorem third_party_invite_panics_witness:
  "Type (exampleEvent ''m.room.member'' ''@bob:b'' (Some ''@dave:d'')
       (JObj [(''membership'', JStr ''invite''), (''third_party_invite'', JObj [])])
       [[JStr ''$prev:a'', JObj []]]) = ''m.room.member'' \<and>
   memberContent_parse (exampleEvent ''m.room.member'' ''@bob:b'' (Some ''@dave:d'')
       (JObj [(''membership'', JStr ''invite''), (''third_party_invite'', JObj [])])
       [[JStr ''$prev:a'', JObj []]]) =
     Inr \<lparr>Membership = ''invite'', thirdPartyInvite = Some (JObj [])\<rparr> \<and>
   Allowed (exampleEvent ''m.room.member'' ''@bob:b'' (Some ''@dave:d'')
       (JObj [(''membership'', JStr ''invite''), (''third_party_invite'', JObj [])])
       [[JStr ''$prev:a'', JObj []]]) exampleNewRoom =
     Some (Panic ''ThirdPartyInvite not implemented'')"
proof -
  let ?invite = "exampleEvent ''m.room.member'' ''@bob:b'' (Some ''@dave:d'')
       (JObj [(''membership'', JStr ''invite''), (''third_party_invite'', JObj [])])
       [[JStr ''$prev:a'', JObj []]]"
  let ?nm = "\<lparr>Membership = ''invite'', thirdPartyInvite = Some (JObj [])\<rparr>"
  let ?c = "\<lparr>Creator = ''@alice:a'', federate = True, eventID = ''$create:a''\<rparr>"
  have type: "Type ?invite = ''m.room.member''"
    by (simp add: exampleEvent_def)
  have parse: "memberContent_parse ?invite = Inr ?nm"
    by (simp add: example_defs content_defs)
  have nm: "Membership ?nm = ''invite''" "thirdPartyInvite ?nm \<noteq> None"
    by simp_all
  have passed: "createContent_load exampleNewRoom = Inr ?c \<and>
      idAllowed ?c (Sender ?invite) = None \<and>
      StateKey ?invite = Some ''@dave:d'' \<and> idAllowed ?c ''@dave:d'' = None"
    by (simp add: example_defs content_defs)
  have "Allowed ?invite exampleNewRoom = Some (Panic ''ThirdPartyInvite not implemented'')"
    using third_party_invite_panics [OF type parse nm, of exampleNewRoom] passed by blast
  then show ?thesis using type parse by simp
qed

text \<open>
  Claim C7 as stated fails: \<^verbatim>\<open>@alice:a\<close>, joined, invites \<^verbatim>\<open>@carol:c\<close> with a third-party
  invite; the result is the panic, not a \<open>NotAllowed\<close>.
\<close>

theorem third_party_invite_not_denied:
  "Allowed (exampleEvent ''m.room.member'' ''@alice:a'' (Some ''@carol:c'')
       (JObj [(''membership'', JStr ''invite''),
              (''third_party_invite'', JObj [(''signed'', JObj [(''token'', JStr ''t'')])])])
       [[JStr ''$prev:a'', JObj []]]) exampleRoom =
     Some (Panic ''ThirdPartyInvite not implemented'') \<and>
   isPanic (Allowed (exampleEvent ''m.room.member'' ''@alice:a'' (Some ''@carol:c'')
       (JObj [(''membership'', JStr ''invite''),
              (''third_party_invite'', JObj [(''signed'', JObj [(''token'', JStr ''t'')])])])
       [[JStr ''$prev:a'', JObj []]]) exampleRoom) \<and>
   \<not> isNotAllowed (Allowed (exampleEvent ''m.room.member'' ''@alice:a'' (Some ''@carol:c'')
       (JObj [(''membership'', JStr ''invite''),
              (''third_party_invite'', JObj [(''signed'', JObj [(''token'', JStr ''t'')])])])
       [[JStr ''$prev:a'', JObj []]]) exampleRoom)"
  by (simp add: rule_eval)

text \<open>
  Claim C10: a member event that sets another user's membership to \<^verbatim>\<open>join\<close> or \<^verbatim>\<open>knock\<close>
  is never admitted, whatever the auth state: it is decided by the other-transition
  function, which denies it.
\<close>

theorem no_forced_join:
  assumes "StateKey event = Some target" and "target \<noteq> Sender event"
    and "memberContent_parse event = Inr nm"
    and "Membership nm = ''join'' \<or> Membership nm = ''knock''"
  shows "memberEventAllowed event authEvents \<noteq> None \<and>
    (\<forall>m. membershipAllower_setup event authEvents = Inr m \<longrightarrow>
       membershipAllowed m = membershipAllowedOther m \<and>
       isNotAllowed (membershipAllowedOther m))"
proof -
  have machine: "membershipAllowed m = membershipAllowedOther m \<and>
       isNotAllowed (membershipAllowedOther m)"
    if "membershipAllower_setup event authEvents = Inr m" for m
  proof -
    from setup_fields [OF that assms(1)] assms(3)
    have f: "targetID m = target" "senderID m = Sender event" "newMember m = nm"
      by simp_all
    have "membershipAllowedOther m \<noteq> None"
      using other_join_knock [of m] assms(4) f by simp
    then show ?thesis
      using f assms(2) other_denial [of m] by (simp add: membershipAllowed_def)
  qed
  have usual: "memberEventAllowedUsual event authEvents c nm target \<noteq> None" for c
  proof (cases "membershipAllower_setup event authEvents")
    case (Inl e)
    then show ?thesis
      by (cases "idAllowed c target") (simp_all add: memberEventAllowedUsual_def)
  next
    case (Inr m)
    then have "membershipAllowed m \<noteq> None" using machine [OF Inr] other_denial by auto
    then show ?thesis using Inr
      by (cases "idAllowed c target") (simp_all add: memberEventAllowedUsual_def)
  qed
  have "memberEventAllowed event authEvents \<noteq> None"
  proof (cases "createContent_load authEvents")
    case (Inl e) then show ?thesis by (simp add: memberEventAllowed_def)
  next
    case (Inr c)
    then show ?thesis
      using assms(1-3) usual [of c]
      by (cases "idAllowed c (Sender event)") (simp_all add: memberEventAllowed_def)
  qed
  then show ?thesis using machine by blast
qed

theorem no_forced_join_witness:
  "StateKey (exampleEvent ''m.room.member'' ''@alice:a'' (Some ''@bob:b'')
       (JObj [(''membership'', JStr ''join'')]) [[JStr ''$prev:a'', JObj []]]) = Some ''@bob:b'' \<and>
   ''@bob:b'' \<noteq> Sender (exampleEvent ''m.room.member'' ''@alice:a'' (Some ''@bob:b'')
       (JObj [(''membership'', JStr ''join'')]) [[JStr ''$prev:a'', JObj []]]) \<and>
   memberContent_parse (exampleEvent ''m.room.member'' ''@alice:a'' (Some ''@bob:b'')
       (JObj [(''membership'', JStr ''join'')]) [[JStr ''$prev:a'', JObj []]]) =
     Inr \<lparr>Membership = ''join'', thirdPartyInvite = None\<rparr> \<and>
   memberEventAllowed (exampleEvent ''m.room.member'' ''@alice:a'' (Some ''@bob:b'')
       (JObj [(''membership'', JStr ''join'')]) [[JStr ''$prev:a'', JObj []]]) exampleRoom \<noteq> None"
proof -
  let ?forced = "exampleEvent ''m.room.member'' ''@alice:a'' (Some ''@bob:b'')
       (JObj [(''membership'', JStr ''join'')]) [[JStr ''$prev:a'', JObj []]]"
  let ?nm = "\<lparr>Membership = ''join'', thirdPartyInvite = None\<rparr>"
  have key: "StateKey ?forced = Some ''@bob:b''" and other: "''@bob:b'' \<noteq> Sender ?forced"
    by (simp_all add: exampleEvent_def)
  have parse: "memberContent_parse ?forced = Inr ?nm"
    by (simp add: example_defs content_defs)
  have nm: "Membership ?nm = ''join'' \<or> Membership ?nm = ''knock''"
    by simp
  have "memberEventAllowed ?forced exampleRoom \<noteq> None"
    using no_forced_join [OF key other parse nm, of exampleRoom] by blast
  then show ?thesis using key other parse by simp
qed

subsection \<open>The dispatcher\<close>

text \<open>
  Claim C6: an event of type \<^verbatim>\<open>m.room.aliases\<close> is decided by the alias rule. The code
  dispatches the type \<^verbatim>\<open>m.room.alias\<close> to the alias rule, so an \<^verbatim>\<open>m.room.aliases\<close> event
  gets the default rule. \<^verbatim>\<open>@alice:a\<close>, joined with level 50, is admitted with the state key
  \<^verbatim>\<open>b\<close>, which the alias rule denies; \<^verbatim>\<open>@bob:b\<close>, not in the room, is denied with the state
  key \<^verbatim>\<open>b\<close>, which the alias rule admits.
\<close>

theorem aliases_event_gets_default_rule:
  "Allowed (exampleEvent ''m.room.aliases'' ''@alice:a'' (Some ''b'') (JObj [])
       [[JStr ''$prev:a'', JObj []]]) exampleRoom = None \<and>
   aliasEventAllowed (exampleEvent ''m.room.aliases'' ''@alice:a'' (Some ''b'') (JObj [])
       [[JStr ''$prev:a'', JObj []]]) exampleRoom =
     Some (NotAllowed ''alias state_key does not match sender domain, %q != %q'' [Q ''a'', Q ''b'']) \<and>
   Allowed (exampleEvent ''m.room.aliases'' ''@bob:b'' (Some ''b'') (JObj [])
       [[JStr ''$prev:a'', JObj []]]) exampleRoom =
     Some (NotAllowed ''sender %q not in room'' [Q ''@bob:b'']) \<and>
   aliasEventAllowed (exampleEvent ''m.room.aliases'' ''@bob:b'' (Some ''b'') (JObj [])
       [[JStr ''$prev:a'', JObj []]]) exampleRoom = None"
  by (simp add: rule_eval)

subsection \<open>\<^verbatim>\<open>StateNeededForAuth\<close> and \<^verbatim>\<open>isValidUserID\<close>\<close>

text \<open>
  Claim C8: \<^verbatim>\<open>StateNeededForAuth\<close> returns a record for every batch, the empty batch and
  a batch of create events included. The code panics there: \<^verbatim>\<open>unique\<close> ends with
  \<^verbatim>\<open>data.Swap(length-1, j)\<close>, which on an empty slice is \<^verbatim>\<open>Swap(-1, 0)\<close>. The same happens
  for a batch that needs member entries and no third-party invite, such as one message
  event, since the list of tokens is then empty.
\<close>

theorem state_needed_panics_on_empty_list:
  "StateNeededForAuth [] = Inl (Panic ''runtime error: index out of range'') \<and>
   StateNeededForAuth [exampleCreate] = Inl (Panic ''runtime error: index out of range'') \<and>
   StateNeededForAuth [exampleEvent ''m.room.message'' ''@alice:a'' None (JObj [])
       [[JStr ''$prev:a'', JObj []]]] = Inl (Panic ''runtime error: index out of range'')"
  by (simp add: StateNeededForAuth_def stateNeededStep_def unique_def Len_def Swap_def
      inRange_def indexOutOfRange_def example_defs)

text \<open>
  Claim C9: every key of the new \<^verbatim>\<open>users\<close> map is checked, an ill-formed key, the empty
  string included, is denied by name, and the check never faults. \<^verbatim>\<open>isValidUserID\<close> reads
  \<^verbatim>\<open>userID[0]\<close> first, so on the empty key it panics, and so does the rule on a
  power-levels event with that key.
\<close>

theorem empty_user_id_panics:
  "isValidUserID [] = Inl (Panic ''runtime error: index out of range'') \<and>
   Allowed (exampleEvent ''m.room.power_levels'' ''@alice:a'' (Some [])
       (JObj [(''users'', JObj [([], JNum 0)])])
       [[JStr ''$prev:a'', JObj []]]) exampleRoom =
     Some (Panic ''runtime error: index out of range'')"
  by (simp add: rule_eval)

end
